theory Spec2Isabelle
  imports Main
begin

section \<open>JavaScript values and strings\<close>

text \<open>
  A JavaScript string is modelled as a \<^typ>\<open>string\<close>, one \<^typ>\<open>char\<close> per code unit
  (code units 0 to 255).  \<open>String.prototype.trim\<close> removes the WhiteSpace and
  LineTerminator code units from both ends; in this range they are TAB, LF, VT, FF, CR,
  SPACE and NO-BREAK SPACE.
\<close>

definition isWhiteSpace :: "char \<Rightarrow> bool" where
  "isWhiteSpace c = ((of_char c :: nat) \<in> {9, 10, 11, 12, 13, 32, 160})"

definition trim :: "string \<Rightarrow> string" where
  "trim s = rev (dropWhile isWhiteSpace (rev (dropWhile isWhiteSpace s)))"

text \<open>
  A JavaScript number is either finite or one of the three non-finite values; the type
  parameter \<open>'r\<close> stands for the finite doubles.  \<open>Number.isFinite\<close> is \<open>isFiniteNumber\<close>.
\<close>

datatype 'r JsNumber = Finite 'r | NaN | PosInfinity | NegInfinity

fun isFiniteNumber :: "'r JsNumber \<Rightarrow> bool" where
  "isFiniteNumber (Finite _) = True"
| "isFiniteNumber _ = False"

text \<open>
  The values of type \<open>unknown\<close> that the projector inspects.  An object lists its own
  properties; reading a property that is not there gives \<open>undefined\<close>.
\<close>

datatype 'r JsValue =
    JUndefined
  | JNull
  | JBoolean bool
  | JNumber "'r JsNumber"
  | JString string
  | JArray "'r JsValue list"
  | JObject "(string \<times> 'r JsValue) list"

fun getProp :: "'r JsValue \<Rightarrow> string \<Rightarrow> 'r JsValue" where
  "getProp (JObject kvs) k = (case map_of kvs k of Some v \<Rightarrow> v | None \<Rightarrow> JUndefined)"
| "getProp _ k = JUndefined"

text \<open>
  The platform functions the projector calls: \<open>JSON.parse\<close> (\<open>None\<close> when it throws a
  SyntaxError) and the conversion of a finite number to a string that a template literal
  performs.
\<close>

record 'r JsRuntime =
  JSON_parse :: "string \<Rightarrow> 'r JsValue option"
  Number_toString :: "'r \<Rightarrow> string"

text \<open>The decimal digits of a natural number, as a template literal prints an array length.\<close>

definition digitChar :: "nat \<Rightarrow> char" where
  "digitChar d = ''0123456789'' ! (d mod 10)"

function decimal :: "nat \<Rightarrow> string" where
  "decimal n = (if n < 10 then [digitChar n] else decimal (n div 10) @ [digitChar (n mod 10)])"
  by pat_completeness auto
termination
  by (relation "measure (\<lambda>n. n)") auto

declare decimal.simps [simp del]

fun joinWith :: "string \<Rightarrow> string list \<Rightarrow> string" where
  \<comment> \<open>\<open>Array.prototype.join\<close> on an array of strings\<close>
  "joinWith sep [] = []"
| "joinWith sep [x] = x"
| "joinWith sep (x # y # ys) = x @ sep @ joinWith sep (y # ys)"

section \<open>Helpers of \<open>runtime-internals/shared.js\<close>\<close>

text \<open>
  Modelled from the spec: the projector imports \<open>isRecord\<close>, \<open>asString\<close>,
  \<open>asTrimmedString\<close>, \<open>asOptionalString\<close> and \<open>asOptionalBoolean\<close> from \<open>./shared.js\<close>,
  which is not among the sources.  They are modelled after their names, their result
  types at the call sites and the tests of the projector: a record is a non-null,
  non-array object; \<open>asString\<close> keeps a string as it is; \<open>asTrimmedString\<close> trims a string
  and gives the empty string for anything else; \<open>asOptionalString\<close> gives the trimmed
  string when that is non-empty; \<open>asOptionalBoolean\<close> keeps a boolean.
\<close>

fun isRecord :: "'r JsValue \<Rightarrow> bool" where
  \<comment> \<open>Modelled from the spec: \<open>isRecord\<close> of \<open>./shared.js\<close>, a non-null object that is no array\<close>
  "isRecord (JObject _) = True"
| "isRecord _ = False"

fun asString :: "'r JsValue \<Rightarrow> string option" where
  \<comment> \<open>Modelled from the spec: \<open>asString\<close> of \<open>./shared.js\<close>, the string or \<open>undefined\<close>\<close>
  "asString (JString s) = Some s"
| "asString _ = None"

fun asTrimmedString :: "'r JsValue \<Rightarrow> string" where
  \<comment> \<open>Modelled from the spec: \<open>asTrimmedString\<close> of \<open>./shared.js\<close>, the trimmed string or \<open>""\<close>\<close>
  "asTrimmedString (JString s) = trim s"
| "asTrimmedString _ = []"

definition asOptionalString :: "'r JsValue \<Rightarrow> string option" where
  \<comment> \<open>Modelled from the spec: \<open>asOptionalString\<close> of \<open>./shared.js\<close>, the trimmed string when
      it is not empty, else \<open>undefined\<close>\<close>
  "asOptionalString v = (let t = asTrimmedString v in if t = [] then None else Some t)"

fun asOptionalBoolean :: "'r JsValue \<Rightarrow> bool option" where
  \<comment> \<open>Modelled from the spec: \<open>asOptionalBoolean\<close> of \<open>./shared.js\<close>, the boolean or \<open>undefined\<close>\<close>
  "asOptionalBoolean (JBoolean b) = Some b"
| "asOptionalBoolean _ = None"

section \<open>Event projector\<close>

datatype Stream = Output | Thought

text \<open>
  \<open>AcpRuntimeEvent\<close>, the tagged union the projector returns.  An optional property that
  the source leaves out (or sets to \<open>undefined\<close>) is \<open>None\<close>.
\<close>

datatype 'r AcpRuntimeEvent =
    TextDelta (ev_text: string) (ev_stream: Stream) (ev_tag: "string option")
  | ToolCall (ev_text: string) (tc_tag: string) (tc_toolCallId: "string option")
      (tc_status: "string option") (tc_title: string)
  | Status (ev_text: string) (ev_tag: "string option")
      (st_used: "'r JsNumber option") (st_size: "'r JsNumber option")
  | Done (dn_stopReason: "string option")
  | Error (er_message: string) (er_code: "string option") (er_retryable: "bool option")

fun asOptionalFiniteNumber :: "'r JsValue \<Rightarrow> 'r JsNumber option" where
  "asOptionalFiniteNumber (JNumber n) = (if isFiniteNumber n then Some n else None)"
| "asOptionalFiniteNumber _ = None"

record 'r StructuredPayload =
  sp_type :: string
  sp_payload :: "'r JsValue"
  sp_tag :: "string option"

definition orElse :: "string \<Rightarrow> string \<Rightarrow> string" where
  \<comment> \<open>\<open>a || b\<close> on strings: the empty string is falsy\<close>
  "orElse a b = (if a = [] then b else a)"

definition truthyOpt :: "string option \<Rightarrow> string option" where
  \<comment> \<open>\<open>...(x ? { x } : {})\<close>: the property is kept only for a non-empty string\<close>
  "truthyOpt x = (case x of None \<Rightarrow> None | Some t \<Rightarrow> if t = [] then None else Some t)"

definition resolveStructuredPromptPayload :: "'r JsValue \<Rightarrow> 'r StructuredPayload" where
  "resolveStructuredPromptPayload parsed =
    (let method = asTrimmedString (getProp parsed ''method'');
         params = getProp parsed ''params'';
         update = getProp params ''update''
     in if method = ''session/update'' \<and> isRecord params \<and> isRecord update then
          (let tag = asOptionalString (getProp update ''sessionUpdate'')
           in \<lparr>sp_type = (case tag of None \<Rightarrow> [] | Some t \<Rightarrow> t),
               sp_payload = update, sp_tag = truthyOpt tag\<rparr>)
        else
          (case truthyOpt (asOptionalString (getProp parsed ''sessionUpdate'')) of
             Some sessionUpdate \<Rightarrow>
               \<lparr>sp_type = sessionUpdate, sp_payload = parsed, sp_tag = Some sessionUpdate\<rparr>
           | None \<Rightarrow>
               \<lparr>sp_type = asTrimmedString (getProp parsed ''type''), sp_payload = parsed,
                sp_tag = truthyOpt (asOptionalString (getProp parsed ''tag''))\<rparr>))"

fun arrayItems :: "'r JsValue \<Rightarrow> 'r JsValue list" where
  \<comment> \<open>\<open>Array.isArray(v) ? v : []\<close>\<close>
  "arrayItems (JArray xs) = xs"
| "arrayItems _ = []"

definition resolveStatusTextForTag :: "string \<Rightarrow> 'r JsValue \<Rightarrow> string option" where
  "resolveStatusTextForTag tag payload =
    (if tag = ''available_commands_update'' then
       (let commands = arrayItems (getProp payload ''availableCommands'')
        in if length commands > 0
           then Some (''available commands updated ('' @ decimal (length commands) @ '')'')
           else Some ''available commands updated'')
     else if tag = ''current_mode_update'' then
       (let mode = orElse (asTrimmedString (getProp payload ''currentModeId''))
                     (orElse (asTrimmedString (getProp payload ''modeId''))
                        (asTrimmedString (getProp payload ''mode'')))
        in if mode \<noteq> [] then Some (''mode updated: '' @ mode) else Some ''mode updated'')
     else if tag = ''config_option_update'' then
       (let ident = orElse (asTrimmedString (getProp payload ''id''))
                      (asTrimmedString (getProp payload ''configOptionId''));
            val = orElse (asTrimmedString (getProp payload ''currentValue''))
                    (orElse (asTrimmedString (getProp payload ''value''))
                       (asTrimmedString (getProp payload ''optionValue'')))
        in if ident \<noteq> [] \<and> val \<noteq> [] then Some (''config updated: '' @ ident @ ''='' @ val)
           else if ident \<noteq> [] then Some (''config updated: '' @ ident)
           else Some ''config updated'')
     else if tag = ''session_info_update'' then
       Some (orElse (asTrimmedString (getProp payload ''summary''))
               (orElse (asTrimmedString (getProp payload ''message'')) ''session updated''))
     else if tag = ''plan'' then
       (let entries = arrayItems (getProp payload ''entries'');
            content = (case find isRecord entries of
                         None \<Rightarrow> []
                       | Some first \<Rightarrow> asTrimmedString (getProp first ''content''))
        in if content \<noteq> [] then Some (''plan: '' @ content) else None)
     else None)"

definition resolveTextChunk :: "'r JsValue \<Rightarrow> Stream \<Rightarrow> string \<Rightarrow> 'r AcpRuntimeEvent option" where
  "resolveTextChunk payload stream tag =
    (let contentRaw = getProp payload ''content'';
         contentType = asTrimmedString (getProp contentRaw ''type'');
         flat = (case asString (getProp payload ''text'') of
                   None \<Rightarrow> None
                 | Some t \<Rightarrow> if t = [] then None else Some (TextDelta t stream (Some tag)))
     in if isRecord contentRaw then
          (if contentType \<noteq> [] \<and> contentType \<noteq> ''text'' then None
           else (case asString (getProp contentRaw ''text'') of
                   None \<Rightarrow> flat
                 | Some t \<Rightarrow> if t \<noteq> [] then Some (TextDelta t stream (Some tag)) else flat))
        else flat)"

definition toolCallEvent :: "'r JsValue \<Rightarrow> string option \<Rightarrow> string \<Rightarrow> 'r AcpRuntimeEvent" where
  \<comment> \<open>the common body of the cases \<open>tool_call\<close> and \<open>tool_call_update\<close>\<close>
  "toolCallEvent payload tag dflt =
    (let title = orElse (asTrimmedString (getProp payload ''title'')) ''tool call'';
         status = asTrimmedString (getProp payload ''status'');
         toolCallId = asOptionalString (getProp payload ''toolCallId'')
     in ToolCall (if status \<noteq> [] then title @ '' ('' @ status @ '')'' else title)
          (case tag of None \<Rightarrow> dflt | Some t \<Rightarrow> t)
          (truthyOpt toolCallId)
          (if status \<noteq> [] then Some status else None)
          title)"

definition usageText :: "'r JsRuntime \<Rightarrow> 'r JsNumber \<Rightarrow> string" where
  \<comment> \<open>\<open>`${n}`\<close> for a number\<close>
  "usageText rt n =
    (case n of Finite r \<Rightarrow> Number_toString rt r | NaN \<Rightarrow> ''NaN''
     | PosInfinity \<Rightarrow> ''Infinity'' | NegInfinity \<Rightarrow> ''-Infinity'')"

definition projectStructured :: "'r JsRuntime \<Rightarrow> 'r JsValue \<Rightarrow> 'r AcpRuntimeEvent option" where
  \<comment> \<open>\<open>parsePromptEventLine\<close> from the call of \<open>resolveStructuredPromptPayload\<close> on\<close>
  "projectStructured rt parsed =
    (let structured = resolveStructuredPromptPayload parsed;
         type = sp_type structured;
         payload = sp_payload structured;
         tag = sp_tag structured
     in if type = ''text'' then
          (case asString (getProp payload ''content'') of
             None \<Rightarrow> None
           | Some content \<Rightarrow> if content = [] then None else Some (TextDelta content Output (truthyOpt tag)))
        else if type = ''thought'' then
          (case asString (getProp payload ''content'') of
             None \<Rightarrow> None
           | Some content \<Rightarrow> if content = [] then None else Some (TextDelta content Thought (truthyOpt tag)))
        else if type = ''tool_call'' then Some (toolCallEvent payload tag ''tool_call'')
        else if type = ''tool_call_update'' then Some (toolCallEvent payload tag ''tool_call_update'')
        else if type = ''agent_message_chunk'' then resolveTextChunk payload Output ''agent_message_chunk''
        else if type = ''agent_thought_chunk'' then resolveTextChunk payload Thought ''agent_thought_chunk''
        else if type = ''usage_update'' then
          (let used = asOptionalFiniteNumber (getProp payload ''used'');
               size = asOptionalFiniteNumber (getProp payload ''size'');
               txt = (case (used, size) of
                        (Some u, Some z) \<Rightarrow> ''usage updated: '' @ usageText rt u @ ''/'' @ usageText rt z
                      | _ \<Rightarrow> ''usage updated'')
           in Some (Status txt (Some ''usage_update'') used size))
        else if type \<in> {''available_commands_update'', ''current_mode_update'',
                         ''config_option_update'', ''session_info_update'', ''plan''} then
          (case resolveStatusTextForTag type payload of
             None \<Rightarrow> None
           | Some txt \<Rightarrow> if txt = [] then None else Some (Status txt (Some type) None None))
        else if type = ''client_operation'' then
          (let method = orElse (asTrimmedString (getProp payload ''method'')) ''operation'';
               status = asTrimmedString (getProp payload ''status'');
               summary = asTrimmedString (getProp payload ''summary'');
               txt = joinWith '' '' (filter (\<lambda>s. s \<noteq> []) [method, status, summary])
           in if txt = [] then None else Some (Status txt (truthyOpt tag) None None))
        else if type = ''update'' then
          (let update = asTrimmedString (getProp payload ''update'')
           in if update = [] then None else Some (Status update (truthyOpt tag) None None))
        else if type = ''done'' then
          Some (Done (asOptionalString (getProp payload ''stopReason'')))
        else if type = ''error'' then
          Some (Error (orElse (asTrimmedString (getProp payload ''message'')) ''acpx runtime error'')
                  (asOptionalString (getProp payload ''code''))
                  (asOptionalBoolean (getProp payload ''retryable'')))
        else None)"

definition parsePromptEventLine :: "'r JsRuntime \<Rightarrow> string \<Rightarrow> 'r AcpRuntimeEvent option" where
  "parsePromptEventLine rt line =
    (let trimmed = trim line
     in if trimmed = [] then None
        else (case JSON_parse rt trimmed of
                None \<Rightarrow> Some (Status trimmed None None None)
              | Some parsed \<Rightarrow> if \<not> isRecord parsed then None else projectStructured rt parsed))"

section \<open>Delivery coordinator\<close>

datatype ReplyDispatchKind = Tool | Block | Final

fun kindName :: "ReplyDispatchKind \<Rightarrow> string" where
  "kindName Tool = ''tool''"
| "kindName Block = ''block''"
| "kindName Final = ''final''"

text \<open>
  \<open>ReplyPayload\<close>, with the properties the coordinator reads (\<open>text\<close>, \<open>mediaUrl\<close>,
  \<open>mediaUrls\<close>); an absent property is \<open>None\<close>.
\<close>

record ReplyPayload =
  payload_text :: "string option"
  mediaUrl :: "string option"
  mediaUrls :: "string list option"

record AcpDispatchDeliveryMeta =
  toolCallId :: "string option"
  allowEdit :: "bool option"

datatype ThreadId = ThreadIdString string | ThreadIdNumber int

record ToolMessageHandle =
  handle_channel :: string
  handle_accountId :: "string option"
  handle_to :: string
  handle_threadId :: "ThreadId option"
  handle_messageId :: string

record AcpDispatchDeliveryState =
  startedReplyLifecycle :: bool
  accumulatedBlockText :: string
  blockCount :: nat
  routedCounts :: "ReplyDispatchKind \<Rightarrow> nat"
  toolMessageByCallId :: "string \<rightharpoonup> ToolMessageHandle"

text \<open>
  The parameters of \<open>createAcpDispatchDeliveryCoordinator\<close> that are data: the three
  properties of \<open>ctx\<close> that are read, and the routing and text-to-speech settings.  The
  configuration \<open>cfg\<close> is only handed on to the collaborators and is left to them.
\<close>

record CoordinatorParams =
  ctx_SessionKey :: "string option"
  ctx_AccountId :: "string option"
  ctx_MessageThreadId :: "ThreadId option"
  inboundAudio :: bool
  sessionTtsAuto :: "string option"
  ttsChannel :: "string option"
  shouldRouteToOriginating :: bool
  originatingChannel :: "string option"
  originatingTo :: "string option"

subsection \<open>External collaborators\<close>

record TtsArgs =
  tts_payload :: ReplyPayload
  tts_channel :: "string option"
  tts_kind :: ReplyDispatchKind
  tts_inboundAudio :: bool
  tts_ttsAuto :: "string option"

record MessageActionArgs =
  action :: string
  action_channel :: string
  action_accountId :: "string option"
  action_to :: string
  action_threadId :: "ThreadId option"
  action_messageId :: string
  action_message :: string
  action_sessionKey :: "string option"

record RouteReplyArgs =
  route_payload :: ReplyPayload
  route_channel :: string
  route_to :: string
  route_sessionKey :: "string option"
  route_accountId :: "string option"
  route_threadId :: "ThreadId option"

record RouteReplyResult =
  ok :: bool
  messageId :: "string option"
  error :: "string option"

text \<open>
  Every call that leaves the coordinator is recorded, in order.  A collaborator sees the
  calls made so far, so its answer may change from one call to the next.  It either
  returns (\<open>Inr\<close>) or throws, respectively rejects its promise (\<open>Inl\<close>, carrying the text
  that \<open>error instanceof Error ? error.message : String(error)\<close> gives).
\<close>

datatype ExternalCall =
    OnReplyStart
  | MaybeApplyTtsToPayload TtsArgs
  | RunMessageAction MessageActionArgs
  | RouteReply RouteReplyArgs
  | SendToolResult ReplyPayload
  | SendBlockReply ReplyPayload
  | SendFinalReply ReplyPayload
  | LogVerbose string

type_synonym Trace = "ExternalCall list"

type_synonym 'a Outcome = "string + 'a"

record Collaborators =
  onReplyStart :: "(Trace \<Rightarrow> unit Outcome) option"
  maybeApplyTtsToPayload :: "Trace \<Rightarrow> TtsArgs \<Rightarrow> ReplyPayload Outcome"
  runMessageAction :: "Trace \<Rightarrow> MessageActionArgs \<Rightarrow> unit Outcome"
  routeReply :: "Trace \<Rightarrow> RouteReplyArgs \<Rightarrow> RouteReplyResult Outcome"
  sendToolResult :: "Trace \<Rightarrow> ReplyPayload \<Rightarrow> bool Outcome"
  sendBlockReply :: "Trace \<Rightarrow> ReplyPayload \<Rightarrow> bool Outcome"
  sendFinalReply :: "Trace \<Rightarrow> ReplyPayload \<Rightarrow> bool Outcome"

subsection \<open>The coordinator\<close>

definition initialState :: AcpDispatchDeliveryState where
  "initialState =
    \<lparr>startedReplyLifecycle = False, accumulatedBlockText = [], blockCount = 0,
     routedCounts = (\<lambda>_. 0), toolMessageByCallId = Map.empty\<rparr>"

definition truthy :: "string option \<Rightarrow> bool" where
  \<comment> \<open>an optional string in a condition: absent and empty are falsy\<close>
  "truthy x = (case x of None \<Rightarrow> False | Some t \<Rightarrow> t \<noteq> [])"

definition trimmedText :: "ReplyPayload \<Rightarrow> string option" where
  \<comment> \<open>\<open>payload.text?.trim()\<close>\<close>
  "trimmedText payload = map_option trim (payload_text payload)"

definition hasVisibleContent :: "ReplyPayload \<Rightarrow> bool" where
  \<comment> \<open>the condition under which \<open>deliver\<close> starts the reply lifecycle\<close>
  "hasVisibleContent payload =
    (length (case trimmedText payload of None \<Rightarrow> [] | Some t \<Rightarrow> t) > 0
     \<or> truthy (mediaUrl payload)
     \<or> (case mediaUrls payload of None \<Rightarrow> False | Some urls \<Rightarrow> length urls \<noteq> 0))"

definition bumpCount :: "ReplyDispatchKind \<Rightarrow> AcpDispatchDeliveryState \<Rightarrow> AcpDispatchDeliveryState" where
  \<comment> \<open>\<open>state.routedCounts[kind] += 1\<close>\<close>
  "bumpCount kind s = s\<lparr>routedCounts := (routedCounts s)(kind := routedCounts s kind + 1)\<rparr>"

definition startReplyLifecycleOnce ::
  "Collaborators \<Rightarrow> AcpDispatchDeliveryState \<times> Trace
     \<Rightarrow> unit Outcome \<times> AcpDispatchDeliveryState \<times> Trace" where
  "startReplyLifecycleOnce C = (\<lambda>(s, tr).
    if startedReplyLifecycle s then (Inr (), s, tr)
    else (let s' = s\<lparr>startedReplyLifecycle := True\<rparr>
          in case onReplyStart C of
               None \<Rightarrow> (Inr (), s', tr)
             | Some callback \<Rightarrow> (callback tr, s', tr @ [OnReplyStart])))"

definition tryEditToolMessage ::
  "CoordinatorParams \<Rightarrow> Collaborators \<Rightarrow> ReplyPayload \<Rightarrow> string
     \<Rightarrow> AcpDispatchDeliveryState \<times> Trace \<Rightarrow> bool \<times> AcpDispatchDeliveryState \<times> Trace" where
  "tryEditToolMessage P C payload callId = (\<lambda>(s, tr).
    if \<not> shouldRouteToOriginating P \<or> \<not> truthy (originatingChannel P) \<or> \<not> truthy (originatingTo P)
    then (False, s, tr)
    else (case toolMessageByCallId s callId of
            None \<Rightarrow> (False, s, tr)
          | Some handle \<Rightarrow>
              if handle_messageId handle = [] then (False, s, tr)
              else (case trimmedText payload of
                      None \<Rightarrow> (False, s, tr)
                    | Some message \<Rightarrow>
                        if message = [] then (False, s, tr)
                        else (let args = \<lparr>action = ''edit'',
                                          action_channel = handle_channel handle,
                                          action_accountId = handle_accountId handle,
                                          action_to = handle_to handle,
                                          action_threadId = handle_threadId handle,
                                          action_messageId = handle_messageId handle,
                                          action_message = message,
                                          action_sessionKey = ctx_SessionKey P\<rparr>
                              in case runMessageAction C tr args of
                                   Inr _ \<Rightarrow> (True, bumpCount Tool s, tr @ [RunMessageAction args])
                                 | Inl err \<Rightarrow>
                                     (False, s,
                                      tr @ [RunMessageAction args,
                                            LogVerbose (''dispatch-acp: tool message edit failed for ''
                                                          @ callId @ '': '' @ err)])))))"

definition accumulateBlock ::
  "ReplyDispatchKind \<Rightarrow> ReplyPayload \<Rightarrow> AcpDispatchDeliveryState \<Rightarrow> AcpDispatchDeliveryState" where
  \<comment> \<open>the first statement of \<open>deliver\<close>\<close>
  "accumulateBlock kind payload s =
    (if kind = Block \<and> truthy (trimmedText payload) then
       s\<lparr>accumulatedBlockText :=
            (if length (accumulatedBlockText s) > 0 then accumulatedBlockText s @ ''\<newline>''
             else accumulatedBlockText s)
            @ (case payload_text payload of None \<Rightarrow> [] | Some t \<Rightarrow> t),
          blockCount := blockCount s + 1\<rparr>
     else s)"

definition routesToOriginating :: "CoordinatorParams \<Rightarrow> bool" where
  \<comment> \<open>\<open>params.shouldRouteToOriginating && params.originatingChannel && params.originatingTo\<close>\<close>
  "routesToOriginating P =
    (shouldRouteToOriginating P \<and> truthy (originatingChannel P) \<and> truthy (originatingTo P))"

definition stringOf :: "string option \<Rightarrow> string" where
  \<comment> \<open>the string of an optional string that a preceding condition found truthy\<close>
  "stringOf x = (case x of None \<Rightarrow> [] | Some t \<Rightarrow> t)"

definition metaToolCallId :: "AcpDispatchDeliveryMeta option \<Rightarrow> string option" where
  \<comment> \<open>\<open>meta?.toolCallId\<close>\<close>
  "metaToolCallId meta = (case meta of None \<Rightarrow> None | Some m \<Rightarrow> toolCallId m)"

definition metaAllowsEdit :: "AcpDispatchDeliveryMeta option \<Rightarrow> bool" where
  \<comment> \<open>\<open>meta?.allowEdit === true\<close>\<close>
  "metaAllowsEdit meta = (case meta of None \<Rightarrow> False | Some m \<Rightarrow> allowEdit m = Some True)"

definition editIfAllowed ::
  "CoordinatorParams \<Rightarrow> Collaborators \<Rightarrow> ReplyDispatchKind \<Rightarrow> ReplyPayload
     \<Rightarrow> AcpDispatchDeliveryMeta option \<Rightarrow> AcpDispatchDeliveryState \<times> Trace
     \<Rightarrow> bool \<times> AcpDispatchDeliveryState \<times> Trace" where
  \<comment> \<open>the edit attempt of the routed path; \<open>False\<close> when there is none or it did not apply\<close>
  "editIfAllowed P C kind ttsPayload meta = (\<lambda>(s, tr).
    let callId = map_option trim (metaToolCallId meta)
    in if kind = Tool \<and> metaAllowsEdit meta \<and> truthy callId
       then tryEditToolMessage P C ttsPayload (stringOf callId) (s, tr)
       else (False, s, tr))"

definition sendAsNewMessage ::
  "CoordinatorParams \<Rightarrow> Collaborators \<Rightarrow> ReplyDispatchKind \<Rightarrow> ReplyPayload
     \<Rightarrow> AcpDispatchDeliveryMeta option \<Rightarrow> AcpDispatchDeliveryState \<times> Trace
     \<Rightarrow> bool Outcome \<times> AcpDispatchDeliveryState \<times> Trace" where
  \<comment> \<open>the routed path from the call of \<open>routeReply\<close> on\<close>
  "sendAsNewMessage P C kind ttsPayload meta = (\<lambda>(s, tr).
    let args = \<lparr>route_payload = ttsPayload,
                 route_channel = stringOf (originatingChannel P),
                 route_to = stringOf (originatingTo P),
                 route_sessionKey = ctx_SessionKey P,
                 route_accountId = ctx_AccountId P,
                 route_threadId = ctx_MessageThreadId P\<rparr>;
        tr1 = tr @ [RouteReply args]
    in case routeReply C tr args of
         Inl err \<Rightarrow> (Inl err, s, tr1)
       | Inr result \<Rightarrow>
           if \<not> ok result then
             (Inr False, s,
              tr1 @ [LogVerbose (''dispatch-acp: route-reply (acp/'' @ kindName kind
                       @ '') failed: ''
                       @ (case error result of None \<Rightarrow> ''unknown error'' | Some e \<Rightarrow> e))])
           else
             (let s1 = (if kind = Tool \<and> truthy (metaToolCallId meta) \<and> truthy (messageId result)
                        then s\<lparr>toolMessageByCallId := (toolMessageByCallId s)
                               (stringOf (metaToolCallId meta) \<mapsto>
                                  \<lparr>handle_channel = stringOf (originatingChannel P),
                                   handle_accountId = ctx_AccountId P,
                                   handle_to = stringOf (originatingTo P),
                                   handle_threadId = ctx_MessageThreadId P,
                                   handle_messageId = stringOf (messageId result)\<rparr>)\<rparr>
                        else s)
              in (Inr True, bumpCount kind s1, tr1)))"

definition routeToOriginating ::
  "CoordinatorParams \<Rightarrow> Collaborators \<Rightarrow> ReplyDispatchKind \<Rightarrow> ReplyPayload
     \<Rightarrow> AcpDispatchDeliveryMeta option \<Rightarrow> AcpDispatchDeliveryState \<times> Trace
     \<Rightarrow> bool Outcome \<times> AcpDispatchDeliveryState \<times> Trace" where
  \<comment> \<open>the body of \<open>if (params.shouldRouteToOriginating && ...)\<close> in \<open>deliver\<close>\<close>
  "routeToOriginating P C kind ttsPayload meta st =
    (case editIfAllowed P C kind ttsPayload meta st of
       (edited, s1, tr1) \<Rightarrow>
         if edited then (Inr True, s1, tr1)
         else sendAsNewMessage P C kind ttsPayload meta (s1, tr1))"

definition dispatchDirectly ::
  "Collaborators \<Rightarrow> ReplyDispatchKind \<Rightarrow> ReplyPayload \<Rightarrow> AcpDispatchDeliveryState \<times> Trace
     \<Rightarrow> bool Outcome \<times> AcpDispatchDeliveryState \<times> Trace" where
  \<comment> \<open>the last three statements of \<open>deliver\<close>\<close>
  "dispatchDirectly C kind ttsPayload = (\<lambda>(s, tr).
    case kind of
      Tool \<Rightarrow> (sendToolResult C tr ttsPayload, s, tr @ [SendToolResult ttsPayload])
    | Block \<Rightarrow> (sendBlockReply C tr ttsPayload, s, tr @ [SendBlockReply ttsPayload])
    | Final \<Rightarrow> (sendFinalReply C tr ttsPayload, s, tr @ [SendFinalReply ttsPayload]))"

definition startIfVisible ::
  "Collaborators \<Rightarrow> ReplyPayload \<Rightarrow> AcpDispatchDeliveryState \<times> Trace
     \<Rightarrow> unit Outcome \<times> AcpDispatchDeliveryState \<times> Trace" where
  \<comment> \<open>the second statement of \<open>deliver\<close>\<close>
  "startIfVisible C payload = (\<lambda>(s, tr).
    if hasVisibleContent payload then startReplyLifecycleOnce C (s, tr) else (Inr (), s, tr))"

definition transformAndSend ::
  "CoordinatorParams \<Rightarrow> Collaborators \<Rightarrow> ReplyDispatchKind \<Rightarrow> ReplyPayload
     \<Rightarrow> AcpDispatchDeliveryMeta option \<Rightarrow> AcpDispatchDeliveryState \<times> Trace
     \<Rightarrow> bool Outcome \<times> AcpDispatchDeliveryState \<times> Trace" where
  \<comment> \<open>\<open>deliver\<close> from the call of \<open>maybeApplyTtsToPayload\<close> on\<close>
  "transformAndSend P C kind payload meta = (\<lambda>(s, tr).
    let args = \<lparr>tts_payload = payload, tts_channel = ttsChannel P, tts_kind = kind,
                 tts_inboundAudio = inboundAudio P, tts_ttsAuto = sessionTtsAuto P\<rparr>;
        tr1 = tr @ [MaybeApplyTtsToPayload args]
    in case maybeApplyTtsToPayload C tr args of
         Inl err \<Rightarrow> (Inl err, s, tr1)
       | Inr ttsPayload \<Rightarrow>
           if routesToOriginating P
           then routeToOriginating P C kind ttsPayload meta (s, tr1)
           else dispatchDirectly C kind ttsPayload (s, tr1))"

definition deliver ::
  "CoordinatorParams \<Rightarrow> Collaborators \<Rightarrow> ReplyDispatchKind \<Rightarrow> ReplyPayload
     \<Rightarrow> AcpDispatchDeliveryMeta option \<Rightarrow> AcpDispatchDeliveryState \<times> Trace
     \<Rightarrow> bool Outcome \<times> AcpDispatchDeliveryState \<times> Trace" where
  "deliver P C kind payload meta = (\<lambda>(s, tr).
    case startIfVisible C payload (accumulateBlock kind payload s, tr) of
      (Inl err, s1, tr1) \<Rightarrow> (Inl err, s1, tr1)
    | (Inr _, s1, tr1) \<Rightarrow> transformAndSend P C kind payload meta (s1, tr1))"

definition getBlockCount :: "AcpDispatchDeliveryState \<Rightarrow> nat" where
  "getBlockCount s = blockCount s"

definition getAccumulatedBlockText :: "AcpDispatchDeliveryState \<Rightarrow> string" where
  "getAccumulatedBlockText s = accumulatedBlockText s"

definition getRoutedCounts :: "AcpDispatchDeliveryState \<Rightarrow> ReplyDispatchKind \<Rightarrow> nat" where
  "getRoutedCounts s = (\<lambda>kind. routedCounts s kind)"

definition applyRoutedCounts ::
  "AcpDispatchDeliveryState \<Rightarrow> (ReplyDispatchKind \<Rightarrow> nat) \<Rightarrow> ReplyDispatchKind \<Rightarrow> nat" where
  \<comment> \<open>the counts of the caller after \<open>applyRoutedCounts(counts)\<close>\<close>
  "applyRoutedCounts s counts = (\<lambda>kind. counts kind + routedCounts s kind)"

subsection \<open>Sequences of calls on one coordinator\<close>

datatype CoordinatorCall =
    StartReplyLifecycle
  | Deliver ReplyDispatchKind ReplyPayload "AcpDispatchDeliveryMeta option"

fun perform ::
  "CoordinatorParams \<Rightarrow> Collaborators \<Rightarrow> CoordinatorCall \<Rightarrow> AcpDispatchDeliveryState \<times> Trace
     \<Rightarrow> AcpDispatchDeliveryState \<times> Trace" where
  "perform P C StartReplyLifecycle st = snd (startReplyLifecycleOnce C st)"
| "perform P C (Deliver kind payload meta) st = snd (deliver P C kind payload meta st)"

fun performAll ::
  "CoordinatorParams \<Rightarrow> Collaborators \<Rightarrow> CoordinatorCall list \<Rightarrow> AcpDispatchDeliveryState \<times> Trace
     \<Rightarrow> AcpDispatchDeliveryState \<times> Trace" where
  "performAll P C [] st = st"
| "performAll P C (c # cs) st = performAll P C cs (perform P C c st)"

subsection \<open>The calls of one turn\<close>


section \<open>Notions used in the statements\<close>

definition whitespaceOnly :: "string \<Rightarrow> bool" where
  \<comment> \<open>empty, or nothing but white space\<close>
  "whitespaceOnly t = (\<forall>c \<in> set t. isWhiteSpace c)"

definition carriesVisibleContent :: "ReplyPayload \<Rightarrow> bool" where
  \<comment> \<open>text that is not white space only, or a media reference\<close>
  "carriesVisibleContent p =
    ((case payload_text p of None \<Rightarrow> False | Some t \<Rightarrow> \<not> whitespaceOnly t)
     \<or> (case mediaUrl p of None \<Rightarrow> False | Some u \<Rightarrow> u \<noteq> [])
     \<or> (case mediaUrls p of None \<Rightarrow> False | Some us \<Rightarrow> us \<noteq> []))"

definition finiteNumberValue :: "'r JsValue \<Rightarrow> bool" where
  \<comment> \<open>the value is a number, and a finite one\<close>
  "finiteNumberValue v = (case v of JNumber (Finite r) \<Rightarrow> True | _ \<Rightarrow> False)"

definition outcome :: "'a \<times> AcpDispatchDeliveryState \<times> Trace \<Rightarrow> 'a" where
  "outcome r = fst r"

definition stateAfter :: "'a \<times> AcpDispatchDeliveryState \<times> Trace \<Rightarrow> AcpDispatchDeliveryState" where
  "stateAfter r = fst (snd r)"

definition traceAfter :: "'a \<times> AcpDispatchDeliveryState \<times> Trace \<Rightarrow> Trace" where
  "traceAfter r = snd (snd r)"

fun isEditCall :: "ExternalCall \<Rightarrow> bool" where
  "isEditCall (RunMessageAction a) = (action a = ''edit'')"
| "isEditCall _ = False"

fun isRouteReplyCall :: "ExternalCall \<Rightarrow> bool" where
  "isRouteReplyCall (RouteReply a) = True"
| "isRouteReplyCall _ = False"

definition editAttempts :: "Trace \<Rightarrow> nat" where
  "editAttempts tr = length (filter isEditCall tr)"

definition routeReplyCalls :: "Trace \<Rightarrow> nat" where
  "routeReplyCalls tr = length (filter isRouteReplyCall tr)"

definition returns :: "'a Outcome \<Rightarrow> bool" where
  \<comment> \<open>the call returned, it did not throw\<close>
  "returns r = (case r of Inl _ \<Rightarrow> False | Inr _ \<Rightarrow> True)"

definition replyStartReturns :: "Collaborators \<Rightarrow> bool" where
  \<comment> \<open>the \<open>onReplyStart\<close> callback, when there is one, never throws\<close>
  "replyStartReturns C =
    (case onReplyStart C of None \<Rightarrow> True | Some callback \<Rightarrow> \<forall>tr. returns (callback tr))"

definition ttsReturns :: "Collaborators \<Rightarrow> bool" where
  "ttsReturns C = (\<forall>tr a. returns (maybeApplyTtsToPayload C tr a))"

definition ttsKeepsText :: "Collaborators \<Rightarrow> bool" where
  \<comment> \<open>the text-to-speech transform returns a payload with the text it was given\<close>
  "ttsKeepsText C =
    (\<forall>tr a. \<exists>p. maybeApplyTtsToPayload C tr a = Inr p \<and> payload_text p = payload_text (tts_payload a))"

definition routeReplyReturns :: "Collaborators \<Rightarrow> bool" where
  "routeReplyReturns C = (\<forall>tr a. returns (routeReply C tr a))"

definition dispatcherReturns :: "Collaborators \<Rightarrow> bool" where
  "dispatcherReturns C =
    (\<forall>tr p. returns (sendToolResult C tr p) \<and> returns (sendBlockReply C tr p)
       \<and> returns (sendFinalReply C tr p))"

fun dispatcherSink :: "Collaborators \<Rightarrow> ReplyDispatchKind \<Rightarrow> Trace \<Rightarrow> ReplyPayload \<Rightarrow> bool Outcome" where
  "dispatcherSink C Tool = sendToolResult C"
| "dispatcherSink C Block = sendBlockReply C"
| "dispatcherSink C Final = sendFinalReply C"

fun dispatcherCall :: "ReplyDispatchKind \<Rightarrow> ReplyPayload \<Rightarrow> ExternalCall" where
  "dispatcherCall Tool p = SendToolResult p"
| "dispatcherCall Block p = SendBlockReply p"
| "dispatcherCall Final p = SendFinalReply p"

fun triggersReplyStart :: "CoordinatorCall \<Rightarrow> bool" where
  "triggersReplyStart StartReplyLifecycle = True"
| "triggersReplyStart (Deliver kind payload meta) = carriesVisibleContent payload"

definition replyStarts :: "Trace \<Rightarrow> nat" where
  \<comment> \<open>how often the \<open>onReplyStart\<close> callback was invoked\<close>
  "replyStarts tr = length (filter (\<lambda>c. c = OnReplyStart) tr)"

definition editFailedLog :: "string \<Rightarrow> string \<Rightarrow> ExternalCall" where
  \<comment> \<open>what \<open>tryEditToolMessage\<close> logs when the edit action has thrown\<close>
  "editFailedLog callId err =
    LogVerbose (''dispatch-acp: tool message edit failed for '' @ callId @ '': '' @ err)"

definition routeFailedLog :: "ReplyDispatchKind \<Rightarrow> RouteReplyResult \<Rightarrow> ExternalCall" where
  \<comment> \<open>what \<open>deliver\<close> logs when \<open>routeReply\<close> has answered \<open>ok: false\<close>\<close>
  "routeFailedLog kind result =
    LogVerbose (''dispatch-acp: route-reply (acp/'' @ kindName kind @ '') failed: ''
                  @ (case error result of None \<Rightarrow> ''unknown error'' | Some e \<Rightarrow> e))"

definition routeArgs :: "CoordinatorParams \<Rightarrow> ReplyPayload \<Rightarrow> RouteReplyArgs" where
  \<comment> \<open>the argument of \<open>routeReply\<close> in \<open>deliver\<close>\<close>
  "routeArgs P p =
    \<lparr>route_payload = p, route_channel = stringOf (originatingChannel P),
     route_to = stringOf (originatingTo P), route_sessionKey = ctx_SessionKey P,
     route_accountId = ctx_AccountId P, route_threadId = ctx_MessageThreadId P\<rparr>"

definition dispatched ::
  "Collaborators \<Rightarrow> ReplyDispatchKind \<Rightarrow> Trace \<Rightarrow> ReplyPayload \<Rightarrow> Trace \<Rightarrow> bool Outcome \<Rightarrow> bool" where
  \<comment> \<open>the dispatcher method of the kind is the only call, and its boolean is the outcome\<close>
  "dispatched C kind tr1 p sent out =
    (sent = [dispatcherCall kind p] \<and> (\<exists>b. dispatcherSink C kind tr1 p = Inr b \<and> out = Inr b))"

definition editedInPlace :: "Collaborators \<Rightarrow> Trace \<Rightarrow> Trace \<Rightarrow> bool Outcome \<Rightarrow> bool" where
  \<comment> \<open>an edit action that returns is the only call, and the outcome is \<open>true\<close>\<close>
  "editedInPlace C tr1 sent out =
    (\<exists>a. sent = [RunMessageAction a] \<and> action a = ''edit''
         \<and> returns (runMessageAction C tr1 a) \<and> out = Inr True)"

definition failedEdit ::
  "Collaborators \<Rightarrow> AcpDispatchDeliveryMeta option \<Rightarrow> Trace \<Rightarrow> Trace \<Rightarrow> bool" where
  \<comment> \<open>an edit action that throws, followed by the log of its error\<close>
  "failedEdit C meta tr1 edit =
    (\<exists>a err cid. metaToolCallId meta = Some cid \<and> action a = ''edit''
       \<and> runMessageAction C tr1 a = Inl err
       \<and> edit = [RunMessageAction a, editFailedLog (trim cid) err])"

definition routedAsNew ::
  "CoordinatorParams \<Rightarrow> Collaborators \<Rightarrow> ReplyDispatchKind \<Rightarrow> AcpDispatchDeliveryMeta option
     \<Rightarrow> Trace \<Rightarrow> ReplyPayload \<Rightarrow> Trace \<Rightarrow> bool Outcome \<Rightarrow> bool" where
  \<comment> \<open>no edit attempt or a failed one, then one \<open>routeReply\<close>, whose \<open>ok\<close> is the outcome; a result
      that is not \<open>ok\<close> is logged\<close>
  "routedAsNew P C kind meta tr1 p sent out =
    (\<exists>edit result.
       (edit = [] \<or> failedEdit C meta tr1 edit)
       \<and> routeReply C (tr1 @ edit) (routeArgs P p) = Inr result
       \<and> (if ok result
           then sent = edit @ [RouteReply (routeArgs P p)] \<and> out = Inr True
           else sent = edit @ [RouteReply (routeArgs P p), routeFailedLog kind result]
                \<and> out = Inr False))"

section \<open>Examples: the collaborators as the test suites mock them\<close>

definition exampleParams :: CoordinatorParams where
  "exampleParams =
    \<lparr>ctx_SessionKey = Some ''agent:codex-acp:session-1'', ctx_AccountId = None,
     ctx_MessageThreadId = None, inboundAudio = False, sessionTtsAuto = None,
     ttsChannel = None, shouldRouteToOriginating = True,
     originatingChannel = Some ''telegram'', originatingTo = Some ''telegram:thread-1''\<rparr>"

definition exampleCollaborators :: Collaborators where
  "exampleCollaborators =
    \<lparr>onReplyStart = Some (\<lambda>tr. Inr ()),
     maybeApplyTtsToPayload = (\<lambda>tr a. Inr (tts_payload a)),
     runMessageAction = (\<lambda>tr a. Inr ()),
     routeReply = (\<lambda>tr a. Inr \<lparr>ok = True, messageId = Some ''mock'', error = None\<rparr>),
     sendToolResult = (\<lambda>tr p. Inr True),
     sendBlockReply = (\<lambda>tr p. Inr True),
     sendFinalReply = (\<lambda>tr p. Inr True)\<rparr>"

definition textPayload :: "string \<Rightarrow> ReplyPayload" where
  \<comment> \<open>\<open>{ text }\<close>\<close>
  "textPayload t = \<lparr>payload_text = Some t, mediaUrl = None, mediaUrls = None\<rparr>"

definition emptyPayload :: ReplyPayload where
  \<comment> \<open>\<open>{}\<close>\<close>
  "emptyPayload = \<lparr>payload_text = None, mediaUrl = None, mediaUrls = None\<rparr>"

definition usageUpdateLine :: string where
  "usageUpdateLine =
    ''{\"jsonrpc\":\"2.0\",\"method\":\"session/update\",\"params\":{\"sessionId\":\"s1\",\"update\":{\"sessionUpdate\":\"usage_update\",\"used\":12,\"size\":500}}}''"

definition usageUpdateEnvelope :: "nat JsValue" where
  "usageUpdateEnvelope =
    JObject [(''jsonrpc'', JString ''2.0''), (''method'', JString ''session/update''),
      (''params'', JObject [(''sessionId'', JString ''s1''),
         (''update'', JObject [(''sessionUpdate'', JString ''usage_update''),
            (''used'', JNumber (Finite 12)), (''size'', JNumber (Finite 500))])])]"

definition errorLine :: string where
  "errorLine = ''{\"type\":\"error\",\"code\":\"E_FAIL\",\"retryable\":true}''"

definition errorObject :: "nat JsValue" where
  "errorObject =
    JObject [(''type'', JString ''error''), (''code'', JString ''E_FAIL''),
      (''retryable'', JBoolean True)]"

definition exampleRuntime :: "nat JsRuntime" where
  \<comment> \<open>\<open>JSON.parse\<close> on the lines of the examples; the finite numbers are natural numbers\<close>
  "exampleRuntime =
    \<lparr>JSON_parse = (\<lambda>line.
        if line = usageUpdateLine then Some usageUpdateEnvelope
        else if line = errorLine then Some errorObject
        else None),
     Number_toString = decimal\<rparr>"

definition numericCodeLine :: string where
  "numericCodeLine = ''{\"type\":\"error\",\"code\":500,\"retryable\":\"yes\"}''"

definition numericCodeObject :: "nat JsValue" where
  "numericCodeObject =
    JObject [(''type'', JString ''error''), (''code'', JNumber (Finite 500)),
      (''retryable'', JString ''yes'')]"

definition numericCodeRuntime :: "nat JsRuntime" where
  \<comment> \<open>\<open>JSON.parse\<close> knows the line with the numeric code too\<close>
  "numericCodeRuntime = exampleRuntime
     \<lparr>JSON_parse := (\<lambda>line. if line = numericCodeLine then Some numericCodeObject
                              else JSON_parse exampleRuntime line)\<rparr>"

definition sameBookkeeping :: "AcpDispatchDeliveryState \<Rightarrow> AcpDispatchDeliveryState \<Rightarrow> bool" where
  \<comment> \<open>the latch and the block accumulation are as before\<close>
  "sameBookkeeping s s' =
    (startedReplyLifecycle s' = startedReplyLifecycle s
     \<and> accumulatedBlockText s' = accumulatedBlockText s
     \<and> blockCount s' = blockCount s)"

definition editArgs :: "CoordinatorParams \<Rightarrow> ToolMessageHandle \<Rightarrow> string \<Rightarrow> MessageActionArgs" where
  \<comment> \<open>the argument of \<open>runMessageAction\<close> in \<open>tryEditToolMessage\<close>\<close>
  "editArgs P h message =
    \<lparr>action = ''edit'', action_channel = handle_channel h, action_accountId = handle_accountId h,
     action_to = handle_to h, action_threadId = handle_threadId h,
     action_messageId = handle_messageId h, action_message = message,
     action_sessionKey = ctx_SessionKey P\<rparr>"

definition editThrows :: "Collaborators \<Rightarrow> bool" where
  "editThrows C = (\<forall>tr a. \<not> returns (runMessageAction C tr a))"

definition editReturns :: "Collaborators \<Rightarrow> bool" where
  "editReturns C = (\<forall>tr a. returns (runMessageAction C tr a))"

definition routeReplyAccepts :: "Collaborators \<Rightarrow> bool" where
  \<comment> \<open>\<open>routeReply\<close> always resolves with \<open>ok: true\<close>\<close>
  "routeReplyAccepts C =
    (\<forall>tr a. case routeReply C tr a of Inl _ \<Rightarrow> False | Inr result \<Rightarrow> ok result)"

section \<open>Examples: scenarios of the test suites\<close>

definition directParams :: CoordinatorParams where
  \<comment> \<open>no routing to an originating channel\<close>
  "directParams = exampleParams
     \<lparr>shouldRouteToOriginating := False, originatingChannel := None, originatingTo := None\<rparr>"

definition helloThenWorld :: "CoordinatorCall list" where
  "helloThenWorld =
    [StartReplyLifecycle, Deliver Final (textPayload ''hello'') None,
     StartReplyLifecycle, Deliver Block (textPayload ''world'') None]"


definition blockA :: "bool Outcome \<times> AcpDispatchDeliveryState \<times> Trace" where
  "blockA = deliver exampleParams exampleCollaborators Block (textPayload ''a'') None (initialState, [])"

definition blockB :: "bool Outcome \<times> AcpDispatchDeliveryState \<times> Trace" where
  "blockB = deliver exampleParams exampleCollaborators Block (textPayload ''b'') None
      (stateAfter blockA, traceAfter blockA)"

definition blockBlank :: "bool Outcome \<times> AcpDispatchDeliveryState \<times> Trace" where
  "blockBlank = deliver exampleParams exampleCollaborators Block (textPayload ''  '') None
      (stateAfter blockB, traceAfter blockB)"

definition inProgress :: ReplyPayload where
  "inProgress = textPayload ''Run command (in_progress)''"

definition completed :: ReplyPayload where
  "completed = textPayload ''Run command (completed)''"

definition routedFirst :: "bool Outcome \<times> AcpDispatchDeliveryState \<times> Trace" where
  \<comment> \<open>a tool delivery for \<open>call-1\<close> that is routed and recorded\<close>
  "routedFirst = deliver exampleParams exampleCollaborators Tool inProgress
      (Some \<lparr>toolCallId = Some ''call-1'', allowEdit = None\<rparr>) (initialState, [])"

definition editedSecond :: "bool Outcome \<times> AcpDispatchDeliveryState \<times> Trace" where
  \<comment> \<open>the update for \<open>call-1\<close>, with \<open>allowEdit\<close>\<close>
  "editedSecond = deliver exampleParams exampleCollaborators Tool completed
      (Some \<lparr>toolCallId = Some ''call-1'', allowEdit = Some True\<rparr>)
      (stateAfter routedFirst, traceAfter routedFirst)"

definition rejectingEdit :: Collaborators where
  \<comment> \<open>the edit action rejects; \<open>routeReply\<close> answers with message id \<open>m1\<close>\<close>
  "rejectingEdit = exampleCollaborators
     \<lparr>runMessageAction := (\<lambda>tr a. Inl ''edit unsupported''),
      routeReply := (\<lambda>tr a. Inr \<lparr>ok = True, messageId = Some ''m1'', error = None\<rparr>)\<rparr>"

definition firstCall1 :: "bool Outcome \<times> AcpDispatchDeliveryState \<times> Trace" where
  "firstCall1 = deliver exampleParams rejectingEdit Tool inProgress
      (Some \<lparr>toolCallId = Some ''call-1'', allowEdit = None\<rparr>) (initialState, [])"

definition secondCall1 :: "bool Outcome \<times> AcpDispatchDeliveryState \<times> Trace" where
  "secondCall1 = deliver exampleParams rejectingEdit Tool completed
      (Some \<lparr>toolCallId = Some ''call-1'', allowEdit = Some True\<rparr>)
      (stateAfter firstCall1, traceAfter firstCall1)"

definition unsupportedEdit :: Collaborators where
  \<comment> \<open>the mocks of the test \<open>falls back to new tool message when edit fails\<close>\<close>
  "unsupportedEdit = exampleCollaborators
     \<lparr>runMessageAction := (\<lambda>tr a. Inl ''edit unsupported''),
      routeReply := (\<lambda>tr a. Inr \<lparr>ok = True,
         messageId = Some (if routeReplyCalls tr = 0 then ''tool-msg-2'' else ''tool-msg-2-fallback''),
         error = None\<rparr>)\<rparr>"

definition firstCall2 :: "bool Outcome \<times> AcpDispatchDeliveryState \<times> Trace" where
  "firstCall2 = deliver exampleParams unsupportedEdit Tool inProgress
      (Some \<lparr>toolCallId = Some ''call-2'', allowEdit = None\<rparr>) (initialState, [])"

definition secondCall2 :: "bool Outcome \<times> AcpDispatchDeliveryState \<times> Trace" where
  "secondCall2 = deliver exampleParams unsupportedEdit Tool completed
      (Some \<lparr>toolCallId = Some ''call-2'', allowEdit = Some True\<rparr>)
      (stateAfter firstCall2, traceAfter firstCall2)"

definition paddedFirst :: "bool Outcome \<times> AcpDispatchDeliveryState \<times> Trace" where
  \<comment> \<open>a tool delivery whose call id starts with a space\<close>
  "paddedFirst = deliver exampleParams exampleCollaborators Tool inProgress
      (Some \<lparr>toolCallId = Some '' call-1'', allowEdit = None\<rparr>) (initialState, [])"

definition paddedSecond :: "bool Outcome \<times> AcpDispatchDeliveryState \<times> Trace" where
  "paddedSecond = deliver exampleParams exampleCollaborators Tool completed
      (Some \<lparr>toolCallId = Some '' call-1'', allowEdit = Some True\<rparr>)
      (stateAfter paddedFirst, traceAfter paddedFirst)"

definition failingRoute :: Collaborators where
  \<comment> \<open>\<open>routeReply\<close> rejects its promise\<close>
  "failingRoute = exampleCollaborators \<lparr>routeReply := (\<lambda>tr a. Inl ''route failed'')\<rparr>"

definition refusingRoute :: Collaborators where
  \<comment> \<open>\<open>routeReply\<close> resolves with \<open>ok: false\<close>\<close>
  "refusingRoute = exampleCollaborators
     \<lparr>routeReply := (\<lambda>tr a. Inr \<lparr>ok = False, messageId = None, error = Some ''blocked''\<rparr>)\<rparr>"

definition refusedFinal :: "bool Outcome \<times> AcpDispatchDeliveryState \<times> Trace" where
  "refusedFinal = deliver exampleParams refusingRoute Final (textPayload ''hello'') None (initialState, [])"



section \<open>Strings and numbers\<close>

lemma dropWhile_all_iff: "(\<forall>c \<in> set (dropWhile Q xs). Q c) \<longleftrightarrow> (\<forall>c \<in> set xs. Q c)"
  by (induction xs) auto

lemma trim_empty_iff: "trim t = [] \<longleftrightarrow> whitespaceOnly t"
  unfolding trim_def whitespaceOnly_def
  by (simp add: dropWhile_all_iff)

lemma decimal_small: "n < 10 \<Longrightarrow> decimal n = [digitChar n]"
  by (simp add: decimal.simps)

lemma decimal_12: "decimal 12 = ''12''"
  by (simp add: decimal.simps [of 12] decimal_small digitChar_def)

lemma decimal_500: "decimal 500 = ''500''"
  by (simp add: decimal.simps [of 500] decimal.simps [of 50] decimal_small digitChar_def)

lemma asOptionalFiniteNumber_None: "\<not> finiteNumberValue v \<Longrightarrow> asOptionalFiniteNumber v = None"
  by (cases v rule: asOptionalFiniteNumber.cases)
    (auto simp: finiteNumberValue_def split: JsNumber.splits)

section \<open>The example lines\<close>

lemma parse_empty_line: "JSON_parse exampleRuntime [] = None"
  by (simp add: exampleRuntime_def errorLine_def usageUpdateLine_def)

lemma trim_usage_line: "trim usageUpdateLine = usageUpdateLine"
  by (simp add: usageUpdateLine_def trim_def isWhiteSpace_def)

lemma parse_usage_line: "JSON_parse exampleRuntime (trim usageUpdateLine) = Some usageUpdateEnvelope"
  unfolding trim_usage_line by (simp add: exampleRuntime_def)

lemma trim_error_line: "trim errorLine = errorLine"
  by (simp add: errorLine_def trim_def isWhiteSpace_def)

lemma parse_error_line: "JSON_parse exampleRuntime (trim errorLine) = Some errorObject"
  unfolding trim_error_line by (simp add: exampleRuntime_def errorLine_def usageUpdateLine_def)

lemma resolve_error_object:
  "resolveStructuredPromptPayload errorObject =
     \<lparr>sp_type = ''error'', sp_payload = errorObject, sp_tag = None\<rparr>"
  by (simp add: resolveStructuredPromptPayload_def errorObject_def asOptionalString_def
      truthyOpt_def trim_def isWhiteSpace_def)

lemma trim_numeric_code_line: "trim numericCodeLine = numericCodeLine"
  by (simp add: numericCodeLine_def trim_def isWhiteSpace_def)

lemma parse_numeric_code_line:
  "JSON_parse numericCodeRuntime (trim numericCodeLine) = Some numericCodeObject"
  unfolding trim_numeric_code_line by (simp add: numericCodeRuntime_def)

lemma resolve_numeric_code_object:
  "resolveStructuredPromptPayload numericCodeObject =
     \<lparr>sp_type = ''error'', sp_payload = numericCodeObject, sp_tag = None\<rparr>"
  by (simp add: resolveStructuredPromptPayload_def numericCodeObject_def asOptionalString_def
      truthyOpt_def trim_def isWhiteSpace_def)

section \<open>Event projector: lines that are not JSON\<close>




text \<open>
  A line that parses, but not to a record (a number, a string, an array, \<open>null\<close>), is
  dropped as well.
\<close>

lemma non_record_line_is_dropped:
  assumes "JSON_parse rt (trim line) = Some v" and "\<not> isRecord v"
  shows "parsePromptEventLine rt line = None"
  using assms by (simp add: parsePromptEventLine_def Let_def)

section \<open>Event projector: usage updates\<close>

lemma trim_session_update: "trim ''session/update'' = ''session/update''"
  by (simp add: trim_def isWhiteSpace_def)

lemma trim_usage_update: "trim ''usage_update'' = ''usage_update''"
  by (simp add: trim_def isWhiteSpace_def)

lemma resolve_usage_envelope:
  assumes "getProp parsed ''method'' = JString ''session/update''"
    and "getProp parsed ''params'' = JObject ps"
    and "getProp (JObject ps) ''update'' = JObject us"
    and "getProp (JObject us) ''sessionUpdate'' = JString ''usage_update''"
  shows "resolveStructuredPromptPayload parsed =
          \<lparr>sp_type = ''usage_update'', sp_payload = JObject us, sp_tag = Some ''usage_update''\<rparr>"
  using assms
  by (simp add: resolveStructuredPromptPayload_def asOptionalString_def truthyOpt_def
      trim_session_update trim_usage_update Let_def del: getProp.simps)

lemma project_usage_update:
  assumes "sp_type (resolveStructuredPromptPayload parsed) = ''usage_update''"
  shows "projectStructured rt parsed =
     (let payload = sp_payload (resolveStructuredPromptPayload parsed);
          used = asOptionalFiniteNumber (getProp payload ''used'');
          total = asOptionalFiniteNumber (getProp payload ''size'')
      in Some (Status (case (used, total) of
                        (Some u, Some z) \<Rightarrow> ''usage updated: '' @ usageText rt u @ ''/'' @ usageText rt z
                      | _ \<Rightarrow> ''usage updated'') (Some ''usage_update'') used total))"
  using assms by (simp add: projectStructured_def Let_def)

text \<open>
  C8.  Let the line parse to a \<open>session/update\<close> envelope whose \<open>params.update\<close> has
  \<open>sessionUpdate: "usage_update"\<close>, and let \<open>usedV\<close> and \<open>sizeV\<close> be the values of its
  properties \<open>used\<close> and \<open>size\<close> (\<open>undefined\<close> when absent).  If both are finite numbers
  \<open>u\<close> and \<open>z\<close>, the projector yields exactly the status event with text
  \<open>usage updated: u/z\<close>, tag \<open>usage_update\<close>, \<open>used = u\<close> and \<open>size = z\<close>.  If either is
  not a finite number (not a number, \<open>NaN\<close>, infinite, or absent), the text is
  \<open>usage updated\<close>, the tag is the same, the property that is not a finite number is left
  out, and the other one, if finite, is kept.
\<close>

theorem usage_update_projection:
  assumes empty: "JSON_parse rt [] = None"
    and parsed: "JSON_parse rt (trim line) = Some parsed"
    and "getProp parsed ''method'' = JString ''session/update''"
    and "getProp parsed ''params'' = JObject ps"
    and "getProp (JObject ps) ''update'' = JObject us"
    and "getProp (JObject us) ''sessionUpdate'' = JString ''usage_update''"
    and used: "usedV = getProp (JObject us) ''used''"
    and total: "sizeV = getProp (JObject us) ''size''"
  shows "(\<forall>u z. usedV = JNumber (Finite u) \<and> sizeV = JNumber (Finite z) \<longrightarrow>
            parsePromptEventLine rt line =
              Some (Status (''usage updated: '' @ Number_toString rt u @ ''/'' @ Number_toString rt z)
                      (Some ''usage_update'') (Some (Finite u)) (Some (Finite z))))
       \<and> (\<not> finiteNumberValue usedV \<or> \<not> finiteNumberValue sizeV \<longrightarrow>
            (\<exists>u z. parsePromptEventLine rt line = Some (Status ''usage updated'' (Some ''usage_update'') u z)
               \<and> (\<not> finiteNumberValue usedV \<longrightarrow> u = None)
               \<and> (\<not> finiteNumberValue sizeV \<longrightarrow> z = None)
               \<and> (\<forall>r. usedV = JNumber (Finite r) \<longrightarrow> u = Some (Finite r))
               \<and> (\<forall>r. sizeV = JNumber (Finite r) \<longrightarrow> z = Some (Finite r))))"
proof -
  have ne: "trim line \<noteq> []"
    using empty parsed by auto
  have rec: "isRecord parsed"
    using assms(4) by (cases parsed) auto
  have res: "resolveStructuredPromptPayload parsed =
          \<lparr>sp_type = ''usage_update'', sp_payload = JObject us, sp_tag = Some ''usage_update''\<rparr>"
    using assms(3-6) by (rule resolve_usage_envelope)
  have line: "parsePromptEventLine rt line = projectStructured rt parsed"
    using ne parsed rec by (simp add: parsePromptEventLine_def)
  have proj: "projectStructured rt parsed =
     Some (Status (case (asOptionalFiniteNumber usedV, asOptionalFiniteNumber sizeV) of
                        (Some u, Some z) \<Rightarrow> ''usage updated: '' @ usageText rt u @ ''/'' @ usageText rt z
                      | _ \<Rightarrow> ''usage updated'') (Some ''usage_update'')
             (asOptionalFiniteNumber usedV) (asOptionalFiniteNumber sizeV))"
    using project_usage_update [of parsed rt] res used total
    by (simp add: Let_def del: getProp.simps)
  show ?thesis
  proof (intro conjI allI impI)
    fix u z assume "usedV = JNumber (Finite u) \<and> sizeV = JNumber (Finite z)"
    then show "parsePromptEventLine rt line =
              Some (Status (''usage updated: '' @ Number_toString rt u @ ''/'' @ Number_toString rt z)
                      (Some ''usage_update'') (Some (Finite u)) (Some (Finite z)))"
      using line proj by (simp add: usageText_def)
  next
    assume "\<not> finiteNumberValue usedV \<or> \<not> finiteNumberValue sizeV"
    then have plain: "(case (asOptionalFiniteNumber usedV, asOptionalFiniteNumber sizeV) of
                        (Some u, Some z) \<Rightarrow> ''usage updated: '' @ usageText rt u @ ''/'' @ usageText rt z
                      | _ \<Rightarrow> ''usage updated'') = ''usage updated''"
      by (auto simp: asOptionalFiniteNumber_None split: option.splits)
    have "parsePromptEventLine rt line = Some (Status ''usage updated'' (Some ''usage_update'')
               (asOptionalFiniteNumber usedV) (asOptionalFiniteNumber sizeV))"
      using line proj plain by simp
    then show "\<exists>u z. parsePromptEventLine rt line = Some (Status ''usage updated'' (Some ''usage_update'') u z)
               \<and> (\<not> finiteNumberValue usedV \<longrightarrow> u = None)
               \<and> (\<not> finiteNumberValue sizeV \<longrightarrow> z = None)
               \<and> (\<forall>r. usedV = JNumber (Finite r) \<longrightarrow> u = Some (Finite r))
               \<and> (\<forall>r. sizeV = JNumber (Finite r) \<longrightarrow> z = Some (Finite r))"
      by (auto simp: asOptionalFiniteNumber_None)
  qed
qed

theorem usage_update_projection_witness:
  "JSON_parse exampleRuntime [] = None
   \<and> JSON_parse exampleRuntime (trim usageUpdateLine) = Some usageUpdateEnvelope
   \<and> parsePromptEventLine exampleRuntime usageUpdateLine =
       Some (Status ''usage updated: 12/500'' (Some ''usage_update'')
               (Some (Finite 12)) (Some (Finite 500)))"
proof -
  have m: "getProp usageUpdateEnvelope ''method'' = JString ''session/update''"
    by (simp add: usageUpdateEnvelope_def)
  have ps: "getProp usageUpdateEnvelope ''params'' = JObject [(''sessionId'', JString ''s1''),
         (''update'', JObject [(''sessionUpdate'', JString ''usage_update''),
            (''used'', JNumber (Finite 12)), (''size'', JNumber (Finite 500))])]"
    by (simp add: usageUpdateEnvelope_def)
  have n: "Number_toString exampleRuntime = decimal"
    by (simp add: exampleRuntime_def)
  show ?thesis
    using usage_update_projection [OF parse_empty_line parse_usage_line m ps,
            of "[(''sessionUpdate'', JString ''usage_update''),
                 (''used'', JNumber (Finite 12)), (''size'', JNumber (Finite 500))]"
               "JNumber (Finite 12)" "JNumber (Finite 500)"]
      parse_empty_line parse_usage_line
    by (simp add: n decimal_12 decimal_500)
qed

section \<open>Event projector: error events\<close>

lemma project_error:
  assumes "sp_type (resolveStructuredPromptPayload parsed) = ''error''"
  shows "projectStructured rt parsed =
     (let payload = sp_payload (resolveStructuredPromptPayload parsed)
      in Some (Error (orElse (asTrimmedString (getProp payload ''message'')) ''acpx runtime error'')
                  (asOptionalString (getProp payload ''code''))
                  (asOptionalBoolean (getProp payload ''retryable''))))"
  using assms by (simp add: projectStructured_def Let_def)

text \<open>
  C10 (amended).  For every structured line whose resolved type is \<open>error\<close> and whose
  \<open>message\<close> is absent or empty after trimming, the projector yields an error event whose
  message is exactly \<open>acpx runtime error\<close>.  A \<open>code\<close> that is a string with a character
  other than white space is kept, trimmed; any other \<open>code\<close> (absent, not a string, or a string
  of white space only) is left out.  A \<open>retryable\<close> that is a boolean is kept; any other
  \<open>retryable\<close> is left out.
\<close>

theorem error_event_default_message:
  assumes empty: "JSON_parse rt [] = None"
    and parsed: "JSON_parse rt (trim line) = Some parsed"
    and rec: "isRecord parsed"
    and type: "sp_type (resolveStructuredPromptPayload parsed) = ''error''"
    and payload: "payload = sp_payload (resolveStructuredPromptPayload parsed)"
    and message: "getProp payload ''message'' = JUndefined
                  \<or> (\<exists>m. getProp payload ''message'' = JString m \<and> whitespaceOnly m)"
  shows "\<exists>code retryable.
           parsePromptEventLine rt line = Some (Error ''acpx runtime error'' code retryable)
           \<and> (\<forall>c. getProp payload ''code'' = JString c \<and> \<not> whitespaceOnly c \<longrightarrow> code = Some (trim c))
           \<and> ((\<forall>c. getProp payload ''code'' = JString c \<longrightarrow> whitespaceOnly c) \<longrightarrow> code = None)
           \<and> (\<forall>b. getProp payload ''retryable'' = JBoolean b \<longrightarrow> retryable = Some b)
           \<and> ((\<forall>b. getProp payload ''retryable'' \<noteq> JBoolean b) \<longrightarrow> retryable = None)"
proof -
  have ne: "trim line \<noteq> []"
    using empty parsed by auto
  have line: "parsePromptEventLine rt line = projectStructured rt parsed"
    using ne parsed rec by (simp add: parsePromptEventLine_def)
  have msg: "asTrimmedString (getProp payload ''message'') = []"
    using message by (auto simp: trim_empty_iff)
  have "parsePromptEventLine rt line =
          Some (Error ''acpx runtime error'' (asOptionalString (getProp payload ''code''))
                  (asOptionalBoolean (getProp payload ''retryable'')))"
    using line project_error [OF type, of rt] payload msg by (simp add: Let_def orElse_def)
  moreover have "\<forall>c. getProp payload ''code'' = JString c \<and> \<not> whitespaceOnly c
                   \<longrightarrow> asOptionalString (getProp payload ''code'') = Some (trim c)"
    by (simp add: asOptionalString_def trim_empty_iff)
  moreover have "(\<forall>c. getProp payload ''code'' = JString c \<longrightarrow> whitespaceOnly c)
                   \<longrightarrow> asOptionalString (getProp payload ''code'') = None"
    by (cases "getProp payload ''code''") (simp_all add: asOptionalString_def trim_empty_iff)
  moreover have "\<forall>b. getProp payload ''retryable'' = JBoolean b
                   \<longrightarrow> asOptionalBoolean (getProp payload ''retryable'') = Some b"
    by simp
  moreover have "(\<forall>b. getProp payload ''retryable'' \<noteq> JBoolean b)
                   \<longrightarrow> asOptionalBoolean (getProp payload ''retryable'') = None"
    by (cases "getProp payload ''retryable''") simp_all
  ultimately show ?thesis by blast
qed

theorem error_event_default_message_witness:
  "sp_type (resolveStructuredPromptPayload errorObject) = ''error''
   \<and> getProp errorObject ''message'' = JUndefined
   \<and> parsePromptEventLine exampleRuntime errorLine
       = Some (Error ''acpx runtime error'' (Some ''E_FAIL'') (Some True))"
proof -
  have t: "sp_type (resolveStructuredPromptPayload errorObject) = ''error''"
    by (simp add: resolve_error_object)
  have p: "errorObject = sp_payload (resolveStructuredPromptPayload errorObject)"
    by (simp add: resolve_error_object)
  have r: "isRecord errorObject"
    by (simp add: errorObject_def)
  have m: "getProp errorObject ''message'' = JUndefined"
    by (simp add: errorObject_def)
  have c: "getProp errorObject ''code'' = JString ''E_FAIL''"
    by (simp add: errorObject_def)
  have b: "getProp errorObject ''retryable'' = JBoolean True"
    by (simp add: errorObject_def)
  have tc: "trim ''E_FAIL'' = ''E_FAIL''"
    by (simp add: trim_def isWhiteSpace_def)
  have v: "\<not> whitespaceOnly ''E_FAIL''"
    by (simp add: whitespaceOnly_def isWhiteSpace_def)
  from error_event_default_message [OF parse_empty_line parse_error_line r t p disjI1 [OF m]]
  show ?thesis using t m c b tc v by auto
qed

text \<open>
  The claim as stated fails in both its parts.  On the line
  \<open>{"type":"error","code":"E_FAIL","retryable":true}\<close>, whose resolved type is \<open>error\<close> and
  which has no \<open>message\<close>, the message of the event is not \<open>runtime error\<close>.  On the line
  \<open>{"type":"error","code":500,"retryable":"yes"}\<close> the \<open>code\<close> and the \<open>retryable\<close> are present,
  and the event has neither.
\<close>

theorem error_default_message_counterexample:
  "sp_type (resolveStructuredPromptPayload errorObject) = ''error''
   \<and> getProp (sp_payload (resolveStructuredPromptPayload errorObject)) ''message'' = JUndefined
   \<and> JSON_parse exampleRuntime (trim errorLine) = Some errorObject
   \<and> map_option er_message (parsePromptEventLine exampleRuntime errorLine) \<noteq> Some ''runtime error''
   \<and> sp_type (resolveStructuredPromptPayload numericCodeObject) = ''error''
   \<and> getProp (sp_payload (resolveStructuredPromptPayload numericCodeObject)) ''message'' = JUndefined
   \<and> getProp (sp_payload (resolveStructuredPromptPayload numericCodeObject)) ''code''
       = JNumber (Finite 500)
   \<and> getProp (sp_payload (resolveStructuredPromptPayload numericCodeObject)) ''retryable''
       = JString ''yes''
   \<and> JSON_parse numericCodeRuntime (trim numericCodeLine) = Some numericCodeObject
   \<and> parsePromptEventLine numericCodeRuntime numericCodeLine
       = Some (Error ''acpx runtime error'' None None)"
proof -
  have ne: "trim errorLine \<noteq> []"
    unfolding trim_error_line by (simp add: errorLine_def)
  have m: "getProp errorObject ''message'' = JUndefined"
    by (simp add: errorObject_def)
  have r: "isRecord errorObject"
    by (simp add: errorObject_def)
  have "parsePromptEventLine exampleRuntime errorLine = projectStructured exampleRuntime errorObject"
    using ne parse_error_line r by (simp add: parsePromptEventLine_def)
  also have "\<dots> = Some (Error ''acpx runtime error'' (asOptionalString (getProp errorObject ''code''))
                        (asOptionalBoolean (getProp errorObject ''retryable'')))"
    using m by (simp add: projectStructured_def resolve_error_object orElse_def)
  finally have first:
    "sp_type (resolveStructuredPromptPayload errorObject) = ''error''
     \<and> getProp (sp_payload (resolveStructuredPromptPayload errorObject)) ''message'' = JUndefined
     \<and> JSON_parse exampleRuntime (trim errorLine) = Some errorObject
     \<and> map_option er_message (parsePromptEventLine exampleRuntime errorLine) \<noteq> Some ''runtime error''"
    using m parse_error_line by (simp add: resolve_error_object)
  have ne2: "trim numericCodeLine \<noteq> []"
    unfolding trim_numeric_code_line by (simp add: numericCodeLine_def)
  have m2: "getProp numericCodeObject ''message'' = JUndefined"
    "getProp numericCodeObject ''code'' = JNumber (Finite 500)"
    "getProp numericCodeObject ''retryable'' = JString ''yes''"
    by (simp_all add: numericCodeObject_def)
  have r2: "isRecord numericCodeObject"
    by (simp add: numericCodeObject_def)
  have "parsePromptEventLine numericCodeRuntime numericCodeLine
          = projectStructured numericCodeRuntime numericCodeObject"
    using ne2 parse_numeric_code_line r2 by (simp add: parsePromptEventLine_def)
  also have "\<dots> = Some (Error ''acpx runtime error'' None None)"
    using m2 by (simp add: projectStructured_def resolve_numeric_code_object orElse_def
        asOptionalString_def)
  finally have second:
    "sp_type (resolveStructuredPromptPayload numericCodeObject) = ''error''
     \<and> getProp (sp_payload (resolveStructuredPromptPayload numericCodeObject)) ''message'' = JUndefined
     \<and> getProp (sp_payload (resolveStructuredPromptPayload numericCodeObject)) ''code''
         = JNumber (Finite 500)
     \<and> getProp (sp_payload (resolveStructuredPromptPayload numericCodeObject)) ''retryable''
         = JString ''yes''
     \<and> JSON_parse numericCodeRuntime (trim numericCodeLine) = Some numericCodeObject
     \<and> parsePromptEventLine numericCodeRuntime numericCodeLine
         = Some (Error ''acpx runtime error'' None None)"
    using m2 parse_numeric_code_line by (simp add: resolve_numeric_code_object)
  from first second show ?thesis by blast
qed

section \<open>Delivery coordinator: what each step leaves alone\<close>

lemma hasVisibleContent_iff: "hasVisibleContent p = carriesVisibleContent p"
  by (auto simp: hasVisibleContent_def carriesVisibleContent_def trimmedText_def truthy_def
      trim_empty_iff split: option.splits)

lemma truthy_trimmedText_iff:
  "truthy (trimmedText p) = (case payload_text p of None \<Rightarrow> False | Some t \<Rightarrow> \<not> whitespaceOnly t)"
  by (auto simp: trimmedText_def truthy_def trim_empty_iff split: option.splits)

lemma replyStarts_append [simp]: "replyStarts (xs @ ys) = replyStarts xs + replyStarts ys"
  by (simp add: replyStarts_def)

lemma startReplyLifecycleOnce_facts:
  assumes "startReplyLifecycleOnce C (s, tr) = (r, s', tr')"
  shows "startedReplyLifecycle s'"
    and "accumulatedBlockText s' = accumulatedBlockText s"
    and "blockCount s' = blockCount s"
    and "routedCounts s' = routedCounts s"
    and "toolMessageByCallId s' = toolMessageByCallId s"
    and "replyStarts tr' = replyStarts tr
           + (if \<not> startedReplyLifecycle s \<and> onReplyStart C \<noteq> None then 1 else 0)"
  using assms
  by (auto simp: startReplyLifecycleOnce_def replyStarts_def Let_def split: if_splits option.splits)

lemma startIfVisible_facts:
  assumes "startIfVisible C payload (s, tr) = (r, s', tr')"
  shows "startedReplyLifecycle s' = (startedReplyLifecycle s \<or> carriesVisibleContent payload)"
    and "accumulatedBlockText s' = accumulatedBlockText s"
    and "blockCount s' = blockCount s"
    and "routedCounts s' = routedCounts s"
    and "toolMessageByCallId s' = toolMessageByCallId s"
    and "replyStarts tr' = replyStarts tr
           + (if carriesVisibleContent payload \<and> \<not> startedReplyLifecycle s \<and> onReplyStart C \<noteq> None
              then 1 else 0)"
  using assms startReplyLifecycleOnce_facts [of C s tr r s' tr']
  by (auto simp: startIfVisible_def hasVisibleContent_iff split: if_splits)

lemma tryEditToolMessage_facts:
  assumes "tryEditToolMessage P C payload callId (s, tr) = (b, s', tr')"
  shows "sameBookkeeping s s'"
    and "toolMessageByCallId s' = toolMessageByCallId s"
    and "replyStarts tr' = replyStarts tr"
  using assms
  by (auto simp: tryEditToolMessage_def sameBookkeeping_def bumpCount_def replyStarts_def
      Let_def split: if_splits option.splits sum.splits)

lemma editIfAllowed_facts:
  assumes "editIfAllowed P C kind payload meta (s, tr) = (b, s', tr')"
  shows "sameBookkeeping s s'"
    and "toolMessageByCallId s' = toolMessageByCallId s"
    and "replyStarts tr' = replyStarts tr"
  using assms tryEditToolMessage_facts [of P C payload _ s tr b s' tr']
  by (auto simp: editIfAllowed_def sameBookkeeping_def Let_def split: if_splits)

lemma sendAsNewMessage_facts:
  assumes "sendAsNewMessage P C kind payload meta (s, tr) = (r, s', tr')"
  shows "sameBookkeeping s s'"
    and "replyStarts tr' = replyStarts tr"
  using assms
  by (auto simp: sendAsNewMessage_def sameBookkeeping_def bumpCount_def replyStarts_def
      Let_def split: if_splits sum.splits)

lemma routeToOriginating_facts:
  assumes "routeToOriginating P C kind payload meta (s, tr) = (r, s', tr')"
  shows "sameBookkeeping s s'"
    and "replyStarts tr' = replyStarts tr"
proof -
  obtain b s1 tr1 where e: "editIfAllowed P C kind payload meta (s, tr) = (b, s1, tr1)"
    by (metis prod_cases3)
  have f: "sameBookkeeping s s1" "replyStarts tr1 = replyStarts tr"
    using editIfAllowed_facts [OF e] by auto
  have g: "b \<or> sendAsNewMessage P C kind payload meta (s1, tr1) = (r, s', tr')"
    using assms e by (auto simp: routeToOriginating_def split: if_splits)
  show "sameBookkeeping s s'"
    using assms e f g sendAsNewMessage_facts(1) [of P C kind payload meta s1 tr1 r s' tr']
    by (auto simp: routeToOriginating_def sameBookkeeping_def)
  show "replyStarts tr' = replyStarts tr"
    using assms e f g sendAsNewMessage_facts(2) [of P C kind payload meta s1 tr1 r s' tr']
    by (auto simp: routeToOriginating_def)
qed

lemma dispatchDirectly_facts:
  assumes "dispatchDirectly C kind payload (s, tr) = (r, s', tr')"
  shows "s' = s" and "replyStarts tr' = replyStarts tr"
  using assms
  by (auto simp: dispatchDirectly_def replyStarts_def split: ReplyDispatchKind.splits)

lemma transformAndSend_facts:
  assumes "transformAndSend P C kind payload meta (s, tr) = (r, s', tr')"
  shows "sameBookkeeping s s'"
    and "replyStarts tr' = replyStarts tr"
proof -
  let ?args = "\<lparr>tts_payload = payload, tts_channel = ttsChannel P, tts_kind = kind,
                 tts_inboundAudio = inboundAudio P, tts_ttsAuto = sessionTtsAuto P\<rparr>"
  let ?tr1 = "tr @ [MaybeApplyTtsToPayload ?args]"
  have t: "replyStarts ?tr1 = replyStarts tr"
    by (simp add: replyStarts_def)
  consider (threw) err where "maybeApplyTtsToPayload C tr ?args = Inl err" "s' = s" "tr' = ?tr1"
    | (routed) p where "routeToOriginating P C kind p meta (s, ?tr1) = (r, s', tr')"
    | (direct) p where "dispatchDirectly C kind p (s, ?tr1) = (r, s', tr')"
    using assms by (auto simp: transformAndSend_def Let_def split: sum.splits if_splits)
  then have "sameBookkeeping s s' \<and> replyStarts tr' = replyStarts tr"
  proof cases
    case threw
    then show ?thesis using t by (simp add: sameBookkeeping_def)
  next
    case routed
    then show ?thesis using t routeToOriginating_facts [OF routed] by simp
  next
    case direct
    then show ?thesis using t dispatchDirectly_facts [OF direct] by (simp add: sameBookkeeping_def)
  qed
  then show "sameBookkeeping s s'" and "replyStarts tr' = replyStarts tr" by auto
qed

lemma accumulateBlock_frame:
  "startedReplyLifecycle (accumulateBlock kind payload s) = startedReplyLifecycle s"
  "routedCounts (accumulateBlock kind payload s) = routedCounts s"
  "toolMessageByCallId (accumulateBlock kind payload s) = toolMessageByCallId s"
  by (auto simp: accumulateBlock_def)

lemma deliver_cases:
  assumes "deliver P C kind payload meta (s, tr) = (r, s', tr')"
  obtains (threw) err where "startIfVisible C payload (accumulateBlock kind payload s, tr) = (Inl err, s', tr')"
      and "r = Inl err"
    | (sent) s1 tr1 where "startIfVisible C payload (accumulateBlock kind payload s, tr) = (Inr (), s1, tr1)"
      and "transformAndSend P C kind payload meta (s1, tr1) = (r, s', tr')"
  using assms by (auto simp: deliver_def split: prod.splits sum.splits)

lemma deliver_facts:
  assumes "deliver P C kind payload meta (s, tr) = (r, s', tr')"
  shows "startedReplyLifecycle s' = (startedReplyLifecycle s \<or> carriesVisibleContent payload)"
    and "accumulatedBlockText s' = accumulatedBlockText (accumulateBlock kind payload s)"
    and "blockCount s' = blockCount (accumulateBlock kind payload s)"
    and "replyStarts tr' = replyStarts tr
           + (if carriesVisibleContent payload \<and> \<not> startedReplyLifecycle s \<and> onReplyStart C \<noteq> None
              then 1 else 0)"
proof -
  have "(startedReplyLifecycle s' = (startedReplyLifecycle s \<or> carriesVisibleContent payload))
      \<and> accumulatedBlockText s' = accumulatedBlockText (accumulateBlock kind payload s)
      \<and> blockCount s' = blockCount (accumulateBlock kind payload s)
      \<and> replyStarts tr' = replyStarts tr
           + (if carriesVisibleContent payload \<and> \<not> startedReplyLifecycle s \<and> onReplyStart C \<noteq> None
              then 1 else 0)"
    using assms
  proof (cases rule: deliver_cases)
    case (threw err)
    show ?thesis
      using startIfVisible_facts [OF threw(1)] by (simp add: accumulateBlock_frame)
  next
    case (sent s1 tr1)
    show ?thesis
      using startIfVisible_facts [OF sent(1)] transformAndSend_facts [OF sent(2)]
      by (simp add: accumulateBlock_frame sameBookkeeping_def)
  qed
  then show "startedReplyLifecycle s' = (startedReplyLifecycle s \<or> carriesVisibleContent payload)"
    and "accumulatedBlockText s' = accumulatedBlockText (accumulateBlock kind payload s)"
    and "blockCount s' = blockCount (accumulateBlock kind payload s)"
    and "replyStarts tr' = replyStarts tr
           + (if carriesVisibleContent payload \<and> \<not> startedReplyLifecycle s \<and> onReplyStart C \<noteq> None
              then 1 else 0)"
    by auto
qed

lemma perform_replyStarts:
  assumes "perform P C c (s, tr) = (s', tr')"
  shows "startedReplyLifecycle s' = (startedReplyLifecycle s \<or> triggersReplyStart c)"
    and "replyStarts tr' = replyStarts tr
           + (if triggersReplyStart c \<and> \<not> startedReplyLifecycle s \<and> onReplyStart C \<noteq> None
              then 1 else 0)"
proof -
  have "startedReplyLifecycle s' = (startedReplyLifecycle s \<or> triggersReplyStart c)
     \<and> replyStarts tr' = replyStarts tr
           + (if triggersReplyStart c \<and> \<not> startedReplyLifecycle s \<and> onReplyStart C \<noteq> None
              then 1 else 0)"
  proof (cases c)
    case StartReplyLifecycle
    obtain r where "startReplyLifecycleOnce C (s, tr) = (r, s', tr')"
      using assms StartReplyLifecycle by (cases "startReplyLifecycleOnce C (s, tr)") auto
    from startReplyLifecycleOnce_facts [OF this] show ?thesis
      using StartReplyLifecycle by auto
  next
    case (Deliver kind payload meta)
    obtain r where "deliver P C kind payload meta (s, tr) = (r, s', tr')"
      using assms Deliver by (cases "deliver P C kind payload meta (s, tr)") auto
    from deliver_facts [OF this] show ?thesis
      using Deliver by auto
  qed
  then show "startedReplyLifecycle s' = (startedReplyLifecycle s \<or> triggersReplyStart c)"
    and "replyStarts tr' = replyStarts tr
           + (if triggersReplyStart c \<and> \<not> startedReplyLifecycle s \<and> onReplyStart C \<noteq> None
              then 1 else 0)"
    by auto
qed

lemma performAll_replyStarts:
  "performAll P C cs (s, tr) = (s', tr') \<Longrightarrow>
     startedReplyLifecycle s' = (startedReplyLifecycle s \<or> (\<exists>c \<in> set cs. triggersReplyStart c))
     \<and> replyStarts tr' = replyStarts tr
           + (if (\<exists>c \<in> set cs. triggersReplyStart c) \<and> \<not> startedReplyLifecycle s
                 \<and> onReplyStart C \<noteq> None
              then 1 else 0)"
proof (induction cs arbitrary: s tr)
  case Nil
  then show ?case by simp
next
  case (Cons c cs)
  obtain s1 tr1 where p: "perform P C c (s, tr) = (s1, tr1)"
    by (cases "perform P C c (s, tr)") auto
  have rest: "performAll P C cs (s1, tr1) = (s', tr')"
    using Cons.prems p by simp
  show ?case
    using Cons.IH [OF rest] perform_replyStarts [OF p] by auto
qed

lemma performAll_append:
  "performAll P C (xs @ ys) st = performAll P C ys (performAll P C xs st)"
  by (induction xs arbitrary: st) auto

lemma returns_Inr: "returns r \<Longrightarrow> \<exists>v. r = Inr v"
  by (cases r) (auto simp: returns_def)

lemma startIfVisible_returns:
  assumes "replyStartReturns C"
  shows "\<exists>s1 tr1. startIfVisible C payload (s, tr) = (Inr (), s1, tr1)"
  using assms
  by (auto simp: startIfVisible_def startReplyLifecycleOnce_def replyStartReturns_def Let_def
      dest!: returns_Inr split: option.splits)

lemma dispatchDirectly_eq:
  "dispatchDirectly C kind p (s, tr) = (dispatcherSink C kind tr p, s, tr @ [dispatcherCall kind p])"
  by (cases kind) (simp_all add: dispatchDirectly_def)

lemma startIfVisible_counts:
  assumes "startIfVisible C payload (s, tr) = (r, s', tr')"
  shows "routedCounts s' = routedCounts s"
  using startIfVisible_facts(4) [OF assms] .

lemma transformAndSend_direct:
  assumes "\<not> routesToOriginating P"
  shows "transformAndSend P C kind payload meta (s, tr) =
    (let args = \<lparr>tts_payload = payload, tts_channel = ttsChannel P, tts_kind = kind,
                 tts_inboundAudio = inboundAudio P, tts_ttsAuto = sessionTtsAuto P\<rparr>;
         tr1 = tr @ [MaybeApplyTtsToPayload args]
     in case maybeApplyTtsToPayload C tr args of
          Inl err \<Rightarrow> (Inl err, s, tr1)
        | Inr p \<Rightarrow> (dispatcherSink C kind tr1 p, s, tr1 @ [dispatcherCall kind p]))"
  using assms by (simp add: transformAndSend_def Let_def dispatchDirectly_eq split: sum.splits)

lemma deliver_direct_counts:
  assumes "\<not> routesToOriginating P"
    and "deliver P C kind payload meta (s, tr) = (r, s', tr')"
  shows "routedCounts s' = routedCounts s"
  using assms(2)
proof (cases rule: deliver_cases)
  case (threw err)
  then show ?thesis
    using startIfVisible_facts(4) [OF threw(1)] by (simp add: accumulateBlock_frame)
next
  case (sent s1 tr1)
  have "routedCounts s1 = routedCounts s"
    using startIfVisible_facts(4) [OF sent(1)] by (simp add: accumulateBlock_frame)
  moreover have "s' = s1"
    using sent(2) assms(1) by (auto simp: transformAndSend_direct Let_def split: sum.splits)
  ultimately show ?thesis by simp
qed

lemma perform_direct_counts:
  assumes "\<not> routesToOriginating P" and "perform P C c (s, tr) = (s', tr')"
  shows "routedCounts s' = routedCounts s"
proof (cases c)
  case StartReplyLifecycle
  obtain r where "startReplyLifecycleOnce C (s, tr) = (r, s', tr')"
    using assms(2) StartReplyLifecycle by (cases "startReplyLifecycleOnce C (s, tr)") auto
  then show ?thesis by (rule startReplyLifecycleOnce_facts(4))
next
  case (Deliver kind payload meta)
  obtain r where "deliver P C kind payload meta (s, tr) = (r, s', tr')"
    using assms(2) Deliver by (cases "deliver P C kind payload meta (s, tr)") auto
  then show ?thesis using assms(1) deliver_direct_counts by blast
qed

lemma performAll_direct_counts:
  assumes "\<not> routesToOriginating P"
  shows "performAll P C cs (s, tr) = (s', tr') \<Longrightarrow> routedCounts s' = routedCounts s"
proof (induction cs arbitrary: s tr)
  case Nil
  then show ?case by simp
next
  case (Cons c cs)
  obtain s1 tr1 where p: "perform P C c (s, tr) = (s1, tr1)"
    by (cases "perform P C c (s, tr)") auto
  have "performAll P C cs (s1, tr1) = (s', tr')"
    using Cons.prems p by simp
  then show ?case
    using Cons.IH perform_direct_counts [OF assms p] by simp
qed

lemma routesToOriginating_iff:
  "routesToOriginating P \<longleftrightarrow>
     shouldRouteToOriginating P \<and> originatingChannel P \<notin> {None, Some []}
     \<and> originatingTo P \<notin> {None, Some []}"
  by (auto simp: routesToOriginating_def truthy_def split: option.splits)

lemma not_returns_Inl: "\<not> returns r \<Longrightarrow> \<exists>e. r = Inl e"
  by (cases r) (auto simp: returns_def)

lemma tryEditToolMessage_applies:
  assumes "routesToOriginating P"
    and "toolMessageByCallId s callId = Some h" and "handle_messageId h \<noteq> []"
    and "payload_text p = Some t" and "\<not> whitespaceOnly t"
  shows "tryEditToolMessage P C p callId (s, tr) =
     (case runMessageAction C tr (editArgs P h (trim t)) of
        Inr _ \<Rightarrow> (True, bumpCount Tool s, tr @ [RunMessageAction (editArgs P h (trim t))])
      | Inl err \<Rightarrow> (False, s, tr @ [RunMessageAction (editArgs P h (trim t)),
                       LogVerbose (''dispatch-acp: tool message edit failed for '' @ callId
                                     @ '': '' @ err)]))"
  using assms
  by (simp add: tryEditToolMessage_def routesToOriginating_def trimmedText_def trim_empty_iff
      editArgs_def Let_def split: sum.splits)

lemma editIfAllowed_applies:
  assumes "routesToOriginating P"
    and "toolCallId meta = Some cid" and "allowEdit meta = Some True" and "trim cid \<noteq> []"
    and "toolMessageByCallId s (trim cid) = Some h" and "handle_messageId h \<noteq> []"
    and "payload_text p = Some t" and "\<not> whitespaceOnly t"
  shows "editIfAllowed P C Tool p (Some meta) (s, tr) =
     (case runMessageAction C tr (editArgs P h (trim t)) of
        Inr _ \<Rightarrow> (True, bumpCount Tool s, tr @ [RunMessageAction (editArgs P h (trim t))])
      | Inl err \<Rightarrow> (False, s, tr @ [RunMessageAction (editArgs P h (trim t)),
                       LogVerbose (''dispatch-acp: tool message edit failed for '' @ trim cid
                                     @ '': '' @ err)]))"
  using assms tryEditToolMessage_applies [OF assms(1) assms(5-8), of C tr]
  by (simp add: editIfAllowed_def metaToolCallId_def metaAllowsEdit_def truthy_def stringOf_def
      Let_def)

lemma editAttempts_simps [simp]:
  "editAttempts [] = 0"
  "editAttempts (c # cs) = (if isEditCall c then 1 else 0) + editAttempts cs"
  "editAttempts (xs @ ys) = editAttempts xs + editAttempts ys"
  by (simp_all add: editAttempts_def)

lemma routeReplyCalls_simps [simp]:
  "routeReplyCalls [] = 0"
  "routeReplyCalls (c # cs) = (if isRouteReplyCall c then 1 else 0) + routeReplyCalls cs"
  "routeReplyCalls (xs @ ys) = routeReplyCalls xs + routeReplyCalls ys"
  by (simp_all add: routeReplyCalls_def)

lemma action_editArgs [simp]: "action (editArgs P h m) = ''edit''"
  by (simp add: editArgs_def)

lemma deliver_prelude:
  assumes "replyStartReturns C" and "ttsKeepsText C"
  obtains s1 pre args p where
    "routedCounts s1 = routedCounts s"
    and "toolMessageByCallId s1 = toolMessageByCallId s"
    and "editAttempts pre = 0" and "routeReplyCalls pre = 0"
    and "maybeApplyTtsToPayload C (tr @ pre) args = Inr p"
    and "payload_text p = payload_text payload"
    and "deliver P C kind payload meta (s, tr) =
               (if routesToOriginating P
                then routeToOriginating P C kind p meta (s1, tr @ pre @ [MaybeApplyTtsToPayload args])
                else dispatchDirectly C kind p (s1, tr @ pre @ [MaybeApplyTtsToPayload args]))"
proof -
  let ?args = "\<lparr>tts_payload = payload, tts_channel = ttsChannel P, tts_kind = kind,
                 tts_inboundAudio = inboundAudio P, tts_ttsAuto = sessionTtsAuto P\<rparr>"
  obtain s1 tr1 where st: "startIfVisible C payload (accumulateBlock kind payload s, tr) = (Inr (), s1, tr1)"
    using startIfVisible_returns assms(1) by blast
  obtain p where tts: "maybeApplyTtsToPayload C tr1 ?args = Inr p"
    and same: "payload_text p = payload_text payload"
    using assms(2) unfolding ttsKeepsText_def by (metis TtsArgs.select_convs(1))
  have "tr1 = tr \<or> tr1 = tr @ [OnReplyStart]"
    using st by (auto simp: startIfVisible_def startReplyLifecycleOnce_def Let_def
        split: if_splits option.splits)
  then obtain pre where pre: "tr1 = tr @ pre" "editAttempts pre = 0" "routeReplyCalls pre = 0"
    by (cases "tr1 = tr") auto
  have "deliver P C kind payload meta (s, tr) =
               (if routesToOriginating P
                then routeToOriginating P C kind p meta (s1, tr @ pre @ [MaybeApplyTtsToPayload ?args])
                else dispatchDirectly C kind p (s1, tr @ pre @ [MaybeApplyTtsToPayload ?args]))"
    using st tts pre(1) by (simp add: deliver_def transformAndSend_def Let_def)
  moreover have "routedCounts s1 = routedCounts s" "toolMessageByCallId s1 = toolMessageByCallId s"
    using startIfVisible_facts(4,5) [OF st] by (simp_all add: accumulateBlock_frame)
  ultimately show ?thesis
    using that [of s1 pre ?args p] pre tts same by simp
qed

lemma sendAsNewMessage_trace:
  "routeReplyCalls (traceAfter (sendAsNewMessage P C kind p meta (s, tr))) = routeReplyCalls tr + 1
   \<and> editAttempts (traceAfter (sendAsNewMessage P C kind p meta (s, tr))) = editAttempts tr"
  by (auto simp: sendAsNewMessage_def traceAfter_def Let_def editAttempts_def
      routeReplyCalls_def split: sum.splits)

lemma sendAsNewMessage_outcome:
  "outcome (sendAsNewMessage P C kind p meta (s, tr)) =
     (case routeReply C tr \<lparr>route_payload = p,
                 route_channel = stringOf (originatingChannel P),
                 route_to = stringOf (originatingTo P),
                 route_sessionKey = ctx_SessionKey P,
                 route_accountId = ctx_AccountId P,
                 route_threadId = ctx_MessageThreadId P\<rparr> of
        Inl err \<Rightarrow> Inl err | Inr result \<Rightarrow> Inr (ok result))"
  by (auto simp: sendAsNewMessage_def outcome_def Let_def split: sum.splits)

lemma sendAsNewMessage_call:
  "\<exists>rest. traceAfter (sendAsNewMessage P C kind p meta (s, tr)) =
     tr @ RouteReply \<lparr>route_payload = p,
                 route_channel = stringOf (originatingChannel P),
                 route_to = stringOf (originatingTo P),
                 route_sessionKey = ctx_SessionKey P,
                 route_accountId = ctx_AccountId P,
                 route_threadId = ctx_MessageThreadId P\<rparr> # rest"
  by (auto simp: sendAsNewMessage_def traceAfter_def Let_def split: sum.splits)

lemma accumulateBlock_text:
  "accumulatedBlockText (accumulateBlock Block p s) =
     (case payload_text p of
        None \<Rightarrow> accumulatedBlockText s
      | Some t \<Rightarrow> if whitespaceOnly t then accumulatedBlockText s
                  else if accumulatedBlockText s = [] then t
                  else accumulatedBlockText s @ ''\<newline>'' @ t)"
  by (auto simp: accumulateBlock_def truthy_trimmedText_iff split: option.splits)

lemma accumulateBlock_count:
  "blockCount (accumulateBlock Block p s) =
     (case payload_text p of
        None \<Rightarrow> blockCount s
      | Some t \<Rightarrow> if whitespaceOnly t then blockCount s else blockCount s + 1)"
  by (auto simp: accumulateBlock_def truthy_trimmedText_iff split: option.splits)

lemma deliver_block_text:
  "accumulatedBlockText (stateAfter (deliver P C Block p m (s, tr))) =
     accumulatedBlockText (accumulateBlock Block p s)"
  using deliver_facts(2) [of P C Block p m s tr]
  by (cases "deliver P C Block p m (s, tr)") (simp add: stateAfter_def)

lemma deliver_block_count:
  "blockCount (stateAfter (deliver P C Block p m (s, tr))) =
     blockCount (accumulateBlock Block p s)"
  using deliver_facts(3) [of P C Block p m s tr]
  by (cases "deliver P C Block p m (s, tr)") (simp add: stateAfter_def)

lemma not_whitespaceOnly_a: "\<not> whitespaceOnly ''a''" "\<not> whitespaceOnly ''b''"
  by (simp_all add: whitespaceOnly_def isWhiteSpace_def)

section \<open>Evaluating the examples\<close>

lemmas coordinator_defs =
  deliver_def startIfVisible_def hasVisibleContent_def trimmedText_def truthy_def
  startReplyLifecycleOnce_def accumulateBlock_def transformAndSend_def routesToOriginating_def
  routeToOriginating_def editIfAllowed_def metaToolCallId_def metaAllowsEdit_def
  sendAsNewMessage_def tryEditToolMessage_def stringOf_def bumpCount_def dispatchDirectly_def
  Let_def

lemma trim_examples:
  "trim ''Run command (in_progress)'' = ''Run command (in_progress)''"
  "trim ''Run command (completed)'' = ''Run command (completed)''"
  "trim ''call-1'' = ''call-1''"
  "trim ''call-2'' = ''call-2''"
  "trim ''hello'' = ''hello''"
  by (simp_all add: trim_def isWhiteSpace_def)

lemma result_parts: "r = (outcome r, stateAfter r, traceAfter r)"
  by (simp add: outcome_def stateAfter_def traceAfter_def)

lemma example_collaborators_return:
  "replyStartReturns exampleCollaborators" "ttsReturns exampleCollaborators"
  "ttsKeepsText exampleCollaborators" "editReturns exampleCollaborators"
  "routeReplyReturns exampleCollaborators" "dispatcherReturns exampleCollaborators"
  "routeReplyAccepts exampleCollaborators"
  by (simp_all add: replyStartReturns_def ttsReturns_def ttsKeepsText_def editReturns_def
      routeReplyReturns_def dispatcherReturns_def routeReplyAccepts_def returns_def
      exampleCollaborators_def)

lemma visible_examples:
  "\<not> whitespaceOnly ''Run command (in_progress)''"
  "\<not> whitespaceOnly ''Run command (completed)''"
  "\<not> whitespaceOnly ''visible''"
  "\<not> whitespaceOnly ''hello''"
  by (simp_all add: whitespaceOnly_def isWhiteSpace_def)

lemmas scenario_defs =
  inProgress_def completed_def textPayload_def exampleParams_def exampleCollaborators_def
  initialState_def outcome_def stateAfter_def traceAfter_def

lemma routedFirst_value:
  "outcome routedFirst = Inr True"
  "toolMessageByCallId (stateAfter routedFirst) ''call-1'' =
     Some \<lparr>handle_channel = ''telegram'', handle_accountId = None, handle_to = ''telegram:thread-1'',
           handle_threadId = None, handle_messageId = ''mock''\<rparr>"
  "routeReplyCalls (traceAfter routedFirst) = 1"
  "editAttempts (traceAfter routedFirst) = 0"
  "routedCounts (stateAfter routedFirst) Tool = 1"
  by (simp_all add: routedFirst_def scenario_defs coordinator_defs trim_examples)

lemma firstCall1_value:
  "outcome firstCall1 = Inr True"
  "toolMessageByCallId (stateAfter firstCall1) ''call-1'' =
     Some \<lparr>handle_channel = ''telegram'', handle_accountId = None, handle_to = ''telegram:thread-1'',
           handle_threadId = None, handle_messageId = ''m1''\<rparr>"
  "routeReplyCalls (traceAfter firstCall1) = 1"
  by (simp_all add: firstCall1_def rejectingEdit_def scenario_defs coordinator_defs trim_examples)

lemma firstCall2_value:
  "outcome firstCall2 = Inr True"
  "toolMessageByCallId (stateAfter firstCall2) ''call-2'' =
     Some \<lparr>handle_channel = ''telegram'', handle_accountId = None, handle_to = ''telegram:thread-1'',
           handle_threadId = None, handle_messageId = ''tool-msg-2''\<rparr>"
  "routeReplyCalls (traceAfter firstCall2) = 1"
  "editAttempts (traceAfter firstCall2) = 0"
  by (simp_all add: firstCall2_def unsupportedEdit_def scenario_defs coordinator_defs trim_examples)

section \<open>Delivery coordinator: block accumulation\<close>

text \<open>
  C6.  Delivering block payloads with texts \<open>a\<close> and then \<open>b\<close> to a fresh coordinator
  leaves \<open>accumulatedBlockText\<close> equal to \<open>a\nb\<close> and \<open>blockCount\<close> equal to 2.  A block
  delivery whose text is absent, empty or white space only changes neither.  A block
  delivery with any other text \<open>t\<close> adds one to \<open>blockCount\<close> and appends \<open>t\<close>, preceded by
  a newline only when the text accumulated before was not empty.  All of this holds
  whatever the collaborators do, also when the delivery throws.
\<close>

theorem block_text_accumulation:
  "(payload_text pa = Some ''a'' \<and> payload_text pb = Some ''b'' \<longrightarrow>
      (let afterA = deliver P C Block pa ma (initialState, tr0);
           afterB = deliver P C Block pb mb (stateAfter afterA, traceAfter afterA)
       in getAccumulatedBlockText (stateAfter afterB) = ''a\<newline>b''
          \<and> getBlockCount (stateAfter afterB) = 2))
   \<and> ((case payload_text p of None \<Rightarrow> True | Some t \<Rightarrow> whitespaceOnly t) \<longrightarrow>
        getAccumulatedBlockText (stateAfter (deliver P C Block p m (s, tr))) = getAccumulatedBlockText s
        \<and> getBlockCount (stateAfter (deliver P C Block p m (s, tr))) = getBlockCount s)
   \<and> (payload_text p = Some t \<and> \<not> whitespaceOnly t \<longrightarrow>
        getAccumulatedBlockText (stateAfter (deliver P C Block p m (s, tr)))
          = (if getAccumulatedBlockText s = [] then t
             else getAccumulatedBlockText s @ ''\<newline>'' @ t)
        \<and> getBlockCount (stateAfter (deliver P C Block p m (s, tr))) = getBlockCount s + 1)"
proof (intro conjI impI)
  assume ab: "payload_text pa = Some ''a'' \<and> payload_text pb = Some ''b''"
  show "let afterA = deliver P C Block pa ma (initialState, tr0);
           afterB = deliver P C Block pb mb (stateAfter afterA, traceAfter afterA)
       in getAccumulatedBlockText (stateAfter afterB) = ''a\<newline>b''
          \<and> getBlockCount (stateAfter afterB) = 2"
    using ab not_whitespaceOnly_a
    by (simp add: Let_def getAccumulatedBlockText_def getBlockCount_def deliver_block_text
        deliver_block_count accumulateBlock_text accumulateBlock_count initialState_def)
next
  assume "case payload_text p of None \<Rightarrow> True | Some t \<Rightarrow> whitespaceOnly t"
  then show "getAccumulatedBlockText (stateAfter (deliver P C Block p m (s, tr))) = getAccumulatedBlockText s"
    by (auto simp: getAccumulatedBlockText_def deliver_block_text accumulateBlock_text
        split: option.splits)
next
  assume "case payload_text p of None \<Rightarrow> True | Some t \<Rightarrow> whitespaceOnly t"
  then show "getBlockCount (stateAfter (deliver P C Block p m (s, tr))) = getBlockCount s"
    by (auto simp: getBlockCount_def deliver_block_count accumulateBlock_count
        split: option.splits)
next
  assume "payload_text p = Some t \<and> \<not> whitespaceOnly t"
  then show "getAccumulatedBlockText (stateAfter (deliver P C Block p m (s, tr)))
          = (if getAccumulatedBlockText s = [] then t
             else getAccumulatedBlockText s @ ''\<newline>'' @ t)"
    by (simp add: getAccumulatedBlockText_def deliver_block_text accumulateBlock_text)
next
  assume "payload_text p = Some t \<and> \<not> whitespaceOnly t"
  then show "getBlockCount (stateAfter (deliver P C Block p m (s, tr))) = getBlockCount s + 1"
    by (simp add: getBlockCount_def deliver_block_count accumulateBlock_count)
qed

theorem block_text_accumulation_witness:
  "getAccumulatedBlockText (stateAfter blockB) = ''a\<newline>b''
   \<and> getBlockCount (stateAfter blockB) = 2
   \<and> whitespaceOnly ''  ''
   \<and> getAccumulatedBlockText (stateAfter blockBlank) = ''a\<newline>b''
   \<and> getBlockCount (stateAfter blockBlank) = 2"
proof -
  have w: "whitespaceOnly ''  ''"
    by (simp add: whitespaceOnly_def isWhiteSpace_def)
  show ?thesis
    using block_text_accumulation [where pa = "textPayload ''a''" and pb = "textPayload ''b''"
        and P = exampleParams and C = exampleCollaborators and ma = None and mb = None
        and ?tr0.0 = "[]" and p = "textPayload ''  ''" and m = None and s = "stateAfter blockB"
        and tr = "traceAfter blockB" and t = "''x''"] w
    by (simp add: textPayload_def Let_def blockA_def blockB_def blockBlank_def)
qed

section \<open>Delivery coordinator: the reply lifecycle starts once\<close>

text \<open>
  C7.  For any sequence of \<open>startReplyLifecycle()\<close> and \<open>deliver()\<close> calls on a fresh
  coordinator, the \<open>onReplyStart\<close> callback is invoked at most once; when the coordinator
  has the callback, it is invoked exactly once if some call is a \<open>startReplyLifecycle()\<close>
  or a \<open>deliver()\<close> whose payload has text that is not white space only or a media
  reference, and never otherwise.  A \<open>deliver\<close> with the empty payload is no trigger and
  adds no invocation in any state.
\<close>

theorem reply_start_at_most_once:
  "replyStarts (snd (performAll P C calls (initialState, []))) \<le> 1
   \<and> (onReplyStart C \<noteq> None \<longrightarrow>
        replyStarts (snd (performAll P C calls (initialState, [])))
          = (if \<exists>c \<in> set calls. triggersReplyStart c then 1 else 0))
   \<and> ((\<forall>c \<in> set calls. \<not> triggersReplyStart c) \<longrightarrow>
        replyStarts (snd (performAll P C calls (initialState, []))) = 0)
   \<and> \<not> triggersReplyStart (Deliver kind emptyPayload meta)
   \<and> replyStarts (traceAfter (deliver P C kind emptyPayload meta (s, tr))) = replyStarts tr"
proof -
  obtain s' tr' where run: "performAll P C calls (initialState, []) = (s', tr')"
    by (cases "performAll P C calls (initialState, [])") auto
  have count: "replyStarts tr' =
      (if (\<exists>c \<in> set calls. triggersReplyStart c) \<and> onReplyStart C \<noteq> None then 1 else 0)"
    using performAll_replyStarts [OF run] by (simp add: initialState_def replyStarts_def)
  have empty: "\<not> carriesVisibleContent emptyPayload"
    by (simp add: carriesVisibleContent_def emptyPayload_def)
  obtain r s2 tr2 where d: "deliver P C kind emptyPayload meta (s, tr) = (r, s2, tr2)"
    by (metis prod_cases3)
  have "replyStarts tr2 = replyStarts tr"
    using deliver_facts(4) [OF d] empty by simp
  then show ?thesis
    using run count empty d by (auto simp: traceAfter_def)
qed

theorem reply_start_at_most_once_witness:
  "onReplyStart exampleCollaborators \<noteq> None
   \<and> (\<exists>c \<in> set helloThenWorld. triggersReplyStart c)
   \<and> replyStarts (snd (performAll exampleParams exampleCollaborators helloThenWorld (initialState, []))) = 1
   \<and> \<not> triggersReplyStart (Deliver Final emptyPayload None)
   \<and> replyStarts (snd (performAll exampleParams exampleCollaborators [Deliver Final emptyPayload None] (initialState, []))) = 0"
  using reply_start_at_most_once [of exampleParams exampleCollaborators helloThenWorld Final None initialState "[]"]
    reply_start_at_most_once [of exampleParams exampleCollaborators "[Deliver Final emptyPayload None]" Final None initialState "[]"]
  by (simp add: exampleCollaborators_def helloThenWorld_def carriesVisibleContent_def emptyPayload_def)






section \<open>Delivery coordinator: direct dispatch\<close>

text \<open>
  C9.  Let the coordinator not route to an originating channel (\<open>shouldRouteToOriginating\<close>
  is false, or the channel or the address is absent or empty).  Then \<open>deliver\<close> leaves every
  routed counter as it was.  When the reply-start callback and the text-to-speech transform
  return, the last call of \<open>deliver\<close> is the dispatcher method of the kind (\<open>sendToolResult\<close>,
  \<open>sendBlockReply\<close>, \<open>sendFinalReply\<close>) on the transformed payload, and \<open>deliver\<close> returns
  what that method returns.  After any sequence of calls on a fresh coordinator
  \<open>getRoutedCounts()\<close> is zero for every kind.
\<close>

theorem direct_dispatch_counts_nothing:
  assumes "\<not> shouldRouteToOriginating P \<or> originatingChannel P \<in> {None, Some []}
           \<or> originatingTo P \<in> {None, Some []}"
  shows "routedCounts (stateAfter (deliver P C kind payload meta (s, tr))) = routedCounts s
    \<and> (replyStartReturns C \<and> ttsReturns C \<longrightarrow>
         (\<exists>trb args p.
             traceAfter (deliver P C kind payload meta (s, tr))
               = trb @ [MaybeApplyTtsToPayload args, dispatcherCall kind p]
             \<and> tts_payload args = payload
             \<and> maybeApplyTtsToPayload C trb args = Inr p
             \<and> outcome (deliver P C kind payload meta (s, tr))
                 = dispatcherSink C kind (trb @ [MaybeApplyTtsToPayload args]) p))
    \<and> (\<forall>k. getRoutedCounts (fst (performAll P C calls (initialState, []))) k = 0)"
proof (intro conjI impI allI)
  have direct: "\<not> routesToOriginating P"
    using assms by (auto simp: routesToOriginating_iff)
  obtain r s' tr' where d: "deliver P C kind payload meta (s, tr) = (r, s', tr')"
    by (metis prod_cases3)
  show "routedCounts (stateAfter (deliver P C kind payload meta (s, tr))) = routedCounts s"
    using deliver_direct_counts [OF direct d] d by (simp add: stateAfter_def)
  {
    fix k
    obtain sN trN where run: "performAll P C calls (initialState, []) = (sN, trN)"
      by (cases "performAll P C calls (initialState, [])") auto
    show "getRoutedCounts (fst (performAll P C calls (initialState, []))) k = 0"
      using performAll_direct_counts [OF direct run] run
      by (simp add: getRoutedCounts_def initialState_def)
  }
  assume ok: "replyStartReturns C \<and> ttsReturns C"
  let ?args = "\<lparr>tts_payload = payload, tts_channel = ttsChannel P, tts_kind = kind,
                 tts_inboundAudio = inboundAudio P, tts_ttsAuto = sessionTtsAuto P\<rparr>"
  obtain s1 tr1 where st: "startIfVisible C payload (accumulateBlock kind payload s, tr) = (Inr (), s1, tr1)"
    using startIfVisible_returns ok by blast
  have "returns (maybeApplyTtsToPayload C tr1 ?args)"
    using ok by (simp add: ttsReturns_def)
  then obtain p where tts: "maybeApplyTtsToPayload C tr1 ?args = Inr p"
    using returns_Inr by blast
  have "deliver P C kind payload meta (s, tr) =
          (dispatcherSink C kind (tr1 @ [MaybeApplyTtsToPayload ?args]) p, s1,
           tr1 @ [MaybeApplyTtsToPayload ?args, dispatcherCall kind p])"
    using st tts direct by (simp add: deliver_def transformAndSend_direct Let_def)
  then show "\<exists>trb args p.
             traceAfter (deliver P C kind payload meta (s, tr))
               = trb @ [MaybeApplyTtsToPayload args, dispatcherCall kind p]
             \<and> tts_payload args = payload
             \<and> maybeApplyTtsToPayload C trb args = Inr p
             \<and> outcome (deliver P C kind payload meta (s, tr))
                 = dispatcherSink C kind (trb @ [MaybeApplyTtsToPayload args]) p"
    using tts by (intro exI [of _ tr1] exI [of _ ?args] exI [of _ p])
      (simp add: traceAfter_def outcome_def)
qed

theorem direct_dispatch_counts_nothing_witness:
  "\<not> shouldRouteToOriginating directParams
   \<and> replyStartReturns exampleCollaborators \<and> ttsReturns exampleCollaborators
   \<and> outcome (deliver directParams exampleCollaborators Block (textPayload ''hello'') None
        (initialState, [])) = Inr True
   \<and> last (traceAfter (deliver directParams exampleCollaborators Block (textPayload ''hello'') None
        (initialState, []))) = SendBlockReply (textPayload ''hello'')
   \<and> getRoutedCounts (stateAfter (deliver directParams exampleCollaborators Block
        (textPayload ''hello'') None (initialState, []))) Block = 0
   \<and> getRoutedCounts (fst (performAll directParams exampleCollaborators helloThenWorld
        (initialState, []))) Final = 0"
proof -
  have n: "\<not> shouldRouteToOriginating directParams"
    by (simp add: directParams_def)
  have ev: "outcome (deliver directParams exampleCollaborators Block (textPayload ''hello'') None
        (initialState, [])) = Inr True"
    "last (traceAfter (deliver directParams exampleCollaborators Block (textPayload ''hello'') None
        (initialState, []))) = SendBlockReply (textPayload ''hello'')"
    by (simp_all add: directParams_def textPayload_def exampleParams_def exampleCollaborators_def
        initialState_def coordinator_defs trim_examples outcome_def traceAfter_def)
  from direct_dispatch_counts_nothing [OF disjI1 [OF n], of exampleCollaborators Block
      "textPayload ''hello''" None initialState "[]" helloThenWorld]
  show ?thesis
    using n ev example_collaborators_return
    by (simp add: getRoutedCounts_def initialState_def)
qed

section \<open>Delivery coordinator: editing a tool message in place\<close>

text \<open>
  C1 (amended).  Let the coordinator route to an originating channel and address.  Let a
  tool delivery for a call id (non-empty, without surrounding white space) have
  succeeded, and let a message handle with message id \<open>mid\<close> be recorded for that id.  If
  the reply-start callback returns, the text-to-speech transform returns the payload with
  its text, and the edit action succeeds, then a second tool delivery with the same call
  id, \<open>allowEdit = true\<close> and text that is not white space only invokes the edit action
  with the recorded message id and the trimmed text, does not call \<open>routeReply\<close>, returns
  true, and adds exactly one to the tool counter.
\<close>

theorem edit_in_place_on_second_delivery:
  assumes routed: "shouldRouteToOriginating P" "originatingChannel P = Some chan" "chan \<noteq> []"
      "originatingTo P = Some dest" "dest \<noteq> []"
    and prior: "deliver P C Tool p1 (Some \<lparr>toolCallId = Some cid, allowEdit = ae\<rparr>) st0 = (Inr True, s1, tr1)"
    and recorded: "toolMessageByCallId s1 cid = Some h" "handle_messageId h = mid" "mid \<noteq> []"
    and ident: "cid \<noteq> []" "trim cid = cid"
    and visible: "payload_text p2 = Some t" "\<not> whitespaceOnly t"
    and collaborators: "replyStartReturns C" "ttsKeepsText C" "editReturns C"
    and second: "R = deliver P C Tool p2 (Some \<lparr>toolCallId = Some cid, allowEdit = Some True\<rparr>) (s1, tr1)"
  shows "outcome R = Inr True
       \<and> (\<exists>pre a. traceAfter R = tr1 @ pre @ [RunMessageAction a]
             \<and> action a = ''edit'' \<and> action_messageId a = mid \<and> action_message a = trim t
             \<and> action_channel a = handle_channel h \<and> action_to a = handle_to h)
       \<and> editAttempts (traceAfter R) = editAttempts tr1 + 1
       \<and> routeReplyCalls (traceAfter R) = routeReplyCalls tr1
       \<and> routedCounts (stateAfter R) = (routedCounts s1)(Tool := routedCounts s1 Tool + 1)"
proof -
  let ?meta = "\<lparr>toolCallId = Some cid, allowEdit = Some True\<rparr>"
  have routes: "routesToOriginating P"
    using routed by (simp add: routesToOriginating_def truthy_def)
  obtain s2 pre args p where
    counts: "routedCounts s2 = routedCounts s1"
    and handles: "toolMessageByCallId s2 = toolMessageByCallId s1"
    and quiet: "editAttempts pre = 0" "routeReplyCalls pre = 0"
    and same: "payload_text p = payload_text p2"
    and run: "deliver P C Tool p2 (Some ?meta) (s1, tr1) =
               (if routesToOriginating P
                then routeToOriginating P C Tool p (Some ?meta) (s2, tr1 @ pre @ [MaybeApplyTtsToPayload args])
                else dispatchDirectly C Tool p (s2, tr1 @ pre @ [MaybeApplyTtsToPayload args]))"
    by (rule deliver_prelude [OF collaborators(1,2), where s = s1 and payload = p2 and tr = tr1
          and P = P and kind = Tool and meta = "Some ?meta"])
  let ?tr3 = "tr1 @ pre @ [MaybeApplyTtsToPayload args]"
  let ?a = "editArgs P h (trim t)"
  have "returns (runMessageAction C ?tr3 ?a)"
    using collaborators(3) by (simp add: editReturns_def)
  then obtain u where ok: "runMessageAction C ?tr3 ?a = Inr u"
    using returns_Inr by blast
  have edit: "editIfAllowed P C Tool p (Some ?meta) (s2, ?tr3) =
      (True, bumpCount Tool s2, ?tr3 @ [RunMessageAction ?a])"
    using editIfAllowed_applies [OF routes, of ?meta cid s2 h p t C ?tr3]
      ident recorded handles same visible ok
    by simp
  have result: "R = (Inr True, bumpCount Tool s2, ?tr3 @ [RunMessageAction ?a])"
    using second run routes edit by (simp add: routeToOriginating_def)
  have "traceAfter R = tr1 @ (pre @ [MaybeApplyTtsToPayload args]) @ [RunMessageAction ?a]"
    using result by (simp add: traceAfter_def)
  moreover have "action ?a = ''edit'' \<and> action_messageId ?a = mid \<and> action_message ?a = trim t
             \<and> action_channel ?a = handle_channel h \<and> action_to ?a = handle_to h"
    using recorded by (simp add: editArgs_def)
  ultimately have call: "\<exists>pre a. traceAfter R = tr1 @ pre @ [RunMessageAction a]
             \<and> action a = ''edit'' \<and> action_messageId a = mid \<and> action_message a = trim t
             \<and> action_channel a = handle_channel h \<and> action_to a = handle_to h"
    by blast
  have "editAttempts (traceAfter R) = editAttempts tr1 + 1"
    using result quiet by (simp add: traceAfter_def)
  moreover have "routeReplyCalls (traceAfter R) = routeReplyCalls tr1"
    using result quiet by (simp add: traceAfter_def)
  moreover have "routedCounts (stateAfter R) = (routedCounts s1)(Tool := routedCounts s1 Tool + 1)"
    using result counts by (simp add: stateAfter_def bumpCount_def)
  moreover have "outcome R = Inr True"
    using result by (simp add: outcome_def)
  ultimately show ?thesis
    using call by blast
qed

theorem edit_in_place_on_second_delivery_witness:
  "outcome routedFirst = Inr True
   \<and> map_option handle_messageId (toolMessageByCallId (stateAfter routedFirst) ''call-1'') = Some ''mock''
   \<and> outcome editedSecond = Inr True
   \<and> editAttempts (traceAfter editedSecond) = 1
   \<and> routeReplyCalls (traceAfter editedSecond) = 1
   \<and> routedCounts (stateAfter editedSecond) Tool = 2"
proof -
  let ?h = "\<lparr>handle_channel = ''telegram'', handle_accountId = None, handle_to = ''telegram:thread-1'',
           handle_threadId = None, handle_messageId = ''mock''\<rparr>"
  have prior: "deliver exampleParams exampleCollaborators Tool inProgress
      (Some \<lparr>toolCallId = Some ''call-1'', allowEdit = None\<rparr>) (initialState, [])
      = (Inr True, stateAfter routedFirst, traceAfter routedFirst)"
    using result_parts [of routedFirst] routedFirst_value(1) by (simp add: routedFirst_def)
  have params: "shouldRouteToOriginating exampleParams"
    "originatingChannel exampleParams = Some ''telegram''" "''telegram'' \<noteq> []"
    "originatingTo exampleParams = Some ''telegram:thread-1''" "''telegram:thread-1'' \<noteq> []"
    by (simp_all add: exampleParams_def)
  have second: "payload_text completed = Some ''Run command (completed)''"
    by (simp add: completed_def textPayload_def)
  from edit_in_place_on_second_delivery [OF params prior routedFirst_value(2) _ _ _ _ second
      visible_examples(2) example_collaborators_return(1,3,4), of "''mock''" editedSecond]
  show ?thesis
    using routedFirst_value by (simp add: trim_examples editedSecond_def)
qed

text \<open>
  The claim as stated fails when the edit action rejects: after a tool delivery for
  \<open>call-1\<close> that succeeded and recorded message id \<open>m1\<close>, the second delivery with
  \<open>allowEdit = true\<close> attempts the edit once and then calls \<open>routeReply\<close>.
\<close>

theorem edit_rejected_counterexample:
  "outcome firstCall1 = Inr True
   \<and> map_option handle_messageId (toolMessageByCallId (stateAfter firstCall1) ''call-1'') = Some ''m1''
   \<and> editAttempts (traceAfter secondCall1) = 1
   \<and> routeReplyCalls (traceAfter secondCall1) = routeReplyCalls (traceAfter firstCall1) + 1"
  by (simp add: secondCall1_def firstCall1_def rejectingEdit_def scenario_defs coordinator_defs
      trim_examples)

text \<open>
  A call id with surrounding white space is outside the statement above: the handle is
  stored under \<open>meta.toolCallId\<close> as given and looked up under the trimmed id, so the
  second delivery finds no handle, attempts no edit and calls \<open>routeReply\<close> again.
\<close>

lemma padded_call_id_misses_handle:
  "outcome paddedFirst = Inr True
   \<and> map_option handle_messageId (toolMessageByCallId (stateAfter paddedFirst) '' call-1'')
       = Some ''mock''
   \<and> toolMessageByCallId (stateAfter paddedFirst) ''call-1'' = None
   \<and> editAttempts (traceAfter paddedSecond) = 0
   \<and> routeReplyCalls (traceAfter paddedSecond) = 2"
  by (simp add: paddedSecond_def paddedFirst_def scenario_defs coordinator_defs trim_examples
      trim_def isWhiteSpace_def)

section \<open>Delivery coordinator: when the edit fails\<close>

text \<open>
  C2 (amended).  Let the coordinator route to an originating channel, let a handle be
  recorded for the trimmed call id of a tool delivery with \<open>allowEdit = true\<close> and visible
  text, and let the edit action throw.  Then the failure is caught and logged, and the
  same \<open>deliver\<close> call goes on to send the payload as a new message: in that one call the
  edit action is attempted exactly once and \<open>routeReply\<close> is called exactly once, and
  \<open>deliver\<close> returns what \<open>routeReply\<close> reports (true when it reports \<open>ok\<close>).
\<close>

theorem edit_failure_falls_back_within_deliver:
  assumes routed: "shouldRouteToOriginating P" "originatingChannel P = Some chan" "chan \<noteq> []"
      "originatingTo P = Some dest" "dest \<noteq> []"
    and meta: "toolCallId meta = Some cid" "allowEdit meta = Some True" "trim cid \<noteq> []"
    and recorded: "toolMessageByCallId s (trim cid) = Some h" "handle_messageId h \<noteq> []"
    and visible: "payload_text payload = Some t" "\<not> whitespaceOnly t"
    and collaborators: "replyStartReturns C" "ttsKeepsText C" "editThrows C"
    and call: "R = deliver P C Tool payload (Some meta) (s, tr)"
  shows "editAttempts (traceAfter R) = editAttempts tr + 1
       \<and> routeReplyCalls (traceAfter R) = routeReplyCalls tr + 1
       \<and> (\<exists>err. LogVerbose (''dispatch-acp: tool message edit failed for '' @ trim cid @ '': '' @ err)
                   \<in> set (traceAfter R))
       \<and> (\<exists>trb a rest. traceAfter R = trb @ RouteReply a # rest
                   \<and> route_channel a = chan \<and> route_to a = dest
                   \<and> payload_text (route_payload a) = Some t
                   \<and> outcome R = (case routeReply C trb a of
                                  Inl err \<Rightarrow> Inl err | Inr result \<Rightarrow> Inr (ok result)))
       \<and> (routeReplyAccepts C \<longrightarrow> outcome R = Inr True)"
proof -
  have routes: "routesToOriginating P"
    using routed by (simp add: routesToOriginating_def truthy_def)
  obtain s2 pre args p where
    handles: "toolMessageByCallId s2 = toolMessageByCallId s"
    and quiet: "editAttempts pre = 0" "routeReplyCalls pre = 0"
    and same: "payload_text p = payload_text payload"
    and run: "deliver P C Tool payload (Some meta) (s, tr) =
               (if routesToOriginating P
                then routeToOriginating P C Tool p (Some meta) (s2, tr @ pre @ [MaybeApplyTtsToPayload args])
                else dispatchDirectly C Tool p (s2, tr @ pre @ [MaybeApplyTtsToPayload args]))"
    by (rule deliver_prelude [OF collaborators(1,2), where s = s and payload = payload and tr = tr
          and P = P and kind = Tool and meta = "Some meta"])
  let ?tr3 = "tr @ pre @ [MaybeApplyTtsToPayload args]"
  let ?a = "editArgs P h (trim t)"
  have "\<not> returns (runMessageAction C ?tr3 ?a)"
    using collaborators(3) by (simp add: editThrows_def)
  then obtain err where threw: "runMessageAction C ?tr3 ?a = Inl err"
    using not_returns_Inl by blast
  let ?log = "LogVerbose (''dispatch-acp: tool message edit failed for '' @ trim cid @ '': '' @ err)"
  let ?tr4 = "?tr3 @ [RunMessageAction ?a, ?log]"
  let ?route = "\<lparr>route_payload = p,
                 route_channel = stringOf (originatingChannel P),
                 route_to = stringOf (originatingTo P),
                 route_sessionKey = ctx_SessionKey P,
                 route_accountId = ctx_AccountId P,
                 route_threadId = ctx_MessageThreadId P\<rparr>"
  have edit: "editIfAllowed P C Tool p (Some meta) (s2, ?tr3) = (False, s2, ?tr4)"
    using editIfAllowed_applies [OF routes meta, of s2 h p t C ?tr3]
      recorded handles same visible threw
    by simp
  have result: "R = sendAsNewMessage P C Tool p (Some meta) (s2, ?tr4)"
    using call run routes edit by (simp add: routeToOriginating_def)
  have t4: "editAttempts ?tr4 = editAttempts tr + 1" "routeReplyCalls ?tr4 = routeReplyCalls tr"
    using quiet by simp_all
  have "editAttempts (traceAfter R) = editAttempts tr + 1"
    "routeReplyCalls (traceAfter R) = routeReplyCalls tr + 1"
    using sendAsNewMessage_trace [of P C Tool p "Some meta" s2 ?tr4] t4 result by simp_all
  moreover have "?log \<in> set (traceAfter R)"
    unfolding result
    by (auto simp: sendAsNewMessage_def traceAfter_def Let_def split: sum.splits)
  moreover have out: "outcome R = (case routeReply C ?tr4 ?route of
        Inl err \<Rightarrow> Inl err | Inr result \<Rightarrow> Inr (ok result))"
    unfolding result by (rule sendAsNewMessage_outcome)
  moreover obtain rest where shape: "traceAfter R = ?tr4 @ RouteReply ?route # rest"
    unfolding result using sendAsNewMessage_call [of P C Tool p "Some meta" s2 ?tr4] by blast
  moreover have "route_channel ?route = chan \<and> route_to ?route = dest
                   \<and> payload_text (route_payload ?route) = Some t"
    using routed same visible by (simp add: stringOf_def)
  moreover have "routeReplyAccepts C \<longrightarrow> outcome R = Inr True"
  proof
    assume acc: "routeReplyAccepts C"
    have "case routeReply C ?tr4 ?route of Inl _ \<Rightarrow> False | Inr result \<Rightarrow> ok result"
      using acc unfolding routeReplyAccepts_def by blast
    then show "outcome R = Inr True"
      unfolding out by (cases "routeReply C ?tr4 ?route") simp_all
  qed
  ultimately show ?thesis by blast
qed

theorem edit_failure_falls_back_within_deliver_witness:
  "editThrows unsupportedEdit
   \<and> editAttempts (traceAfter secondCall2) = 1
   \<and> routeReplyCalls (traceAfter secondCall2) = 2
   \<and> outcome secondCall2 = Inr True"
proof -
  let ?h = "\<lparr>handle_channel = ''telegram'', handle_accountId = None, handle_to = ''telegram:thread-1'',
           handle_threadId = None, handle_messageId = ''tool-msg-2''\<rparr>"
  let ?meta = "\<lparr>toolCallId = Some ''call-2'', allowEdit = Some True\<rparr>"
  have params: "shouldRouteToOriginating exampleParams"
    "originatingChannel exampleParams = Some ''telegram''" "''telegram'' \<noteq> []"
    "originatingTo exampleParams = Some ''telegram:thread-1''" "''telegram:thread-1'' \<noteq> []"
    by (simp_all add: exampleParams_def)
  have meta: "toolCallId ?meta = Some ''call-2''" "allowEdit ?meta = Some True" "trim ''call-2'' \<noteq> []"
    by (simp_all add: trim_examples)
  have recorded: "toolMessageByCallId (stateAfter firstCall2) (trim ''call-2'') = Some ?h"
    "handle_messageId ?h \<noteq> []"
    using firstCall2_value(2) by (simp_all add: trim_examples)
  have visible: "payload_text completed = Some ''Run command (completed)''"
    by (simp add: completed_def textPayload_def)
  have collaborators: "replyStartReturns unsupportedEdit" "ttsKeepsText unsupportedEdit"
    "editThrows unsupportedEdit" "routeReplyAccepts unsupportedEdit"
    by (simp_all add: replyStartReturns_def ttsKeepsText_def editThrows_def routeReplyAccepts_def
        returns_def unsupportedEdit_def exampleCollaborators_def)
  from edit_failure_falls_back_within_deliver [OF params meta recorded visible visible_examples(2)
      collaborators(1-3), of secondCall2 "traceAfter firstCall2"]
  show ?thesis
    using collaborators firstCall2_value by (simp add: secondCall2_def)
qed

text \<open>
  The claim as stated fails in the scenario of the test \<open>falls back to new tool message
  when edit fails\<close>: the second \<open>deliver\<close> call, in which the edit rejects, returns true,
  not false, and has itself called \<open>routeReply\<close> and recorded the new message id.
\<close>

theorem deliver_sends_fallback_itself_counterexample:
  "outcome firstCall2 = Inr True
   \<and> map_option handle_messageId (toolMessageByCallId (stateAfter firstCall2) ''call-2'')
       = Some ''tool-msg-2''
   \<and> outcome secondCall2 = Inr True
   \<and> outcome secondCall2 \<noteq> Inr False
   \<and> routeReplyCalls (traceAfter secondCall2) = routeReplyCalls (traceAfter firstCall2) + 1
   \<and> map_option handle_messageId (toolMessageByCallId (stateAfter secondCall2) ''call-2'')
       = Some ''tool-msg-2-fallback''"
  by (simp add: secondCall2_def firstCall2_def unsupportedEdit_def scenario_defs coordinator_defs
      trim_examples)

section \<open>Delivery coordinator: what is caught\<close>

lemma deliver_reaches_routing:
  assumes "replyStartReturns C" and "ttsReturns C"
  obtains s1 pre args p where
    "pre = [] \<or> pre = [OnReplyStart]"
    and "tts_payload args = payload"
    and "maybeApplyTtsToPayload C (tr @ pre) args = Inr p"
    and "deliver P C kind payload meta (s, tr) =
               (if routesToOriginating P
                then routeToOriginating P C kind p meta (s1, tr @ pre @ [MaybeApplyTtsToPayload args])
                else dispatchDirectly C kind p (s1, tr @ pre @ [MaybeApplyTtsToPayload args]))"
proof -
  let ?args = "\<lparr>tts_payload = payload, tts_channel = ttsChannel P, tts_kind = kind,
                 tts_inboundAudio = inboundAudio P, tts_ttsAuto = sessionTtsAuto P\<rparr>"
  obtain s1 tr1 where st: "startIfVisible C payload (accumulateBlock kind payload s, tr) = (Inr (), s1, tr1)"
    using startIfVisible_returns assms(1) by blast
  have "returns (maybeApplyTtsToPayload C tr1 ?args)"
    using assms(2) by (simp add: ttsReturns_def)
  then obtain p where tts: "maybeApplyTtsToPayload C tr1 ?args = Inr p"
    using returns_Inr by blast
  have "tr1 = tr \<or> tr1 = tr @ [OnReplyStart]"
    using st by (auto simp: startIfVisible_def startReplyLifecycleOnce_def Let_def
        split: if_splits option.splits)
  then obtain pre where pre: "tr1 = tr @ pre" "pre = [] \<or> pre = [OnReplyStart]"
    by auto
  have "deliver P C kind payload meta (s, tr) =
               (if routesToOriginating P
                then routeToOriginating P C kind p meta (s1, tr @ pre @ [MaybeApplyTtsToPayload ?args])
                else dispatchDirectly C kind p (s1, tr @ pre @ [MaybeApplyTtsToPayload ?args]))"
    using st tts pre(1) by (simp add: deliver_def transformAndSend_def Let_def)
  then show ?thesis
    using that [of pre ?args p s1] pre tts by simp
qed

lemma tryEditToolMessage_unfold:
  "tryEditToolMessage P C p callId (s, tr) =
    (if \<not> routesToOriginating P then (False, s, tr)
     else case toolMessageByCallId s callId of
            None \<Rightarrow> (False, s, tr)
          | Some h \<Rightarrow>
              if handle_messageId h = [] then (False, s, tr)
              else (case trimmedText p of
                      None \<Rightarrow> (False, s, tr)
                    | Some m \<Rightarrow>
                        if m = [] then (False, s, tr)
                        else (case runMessageAction C tr (editArgs P h m) of
                                Inr _ \<Rightarrow> (True, bumpCount Tool s, tr @ [RunMessageAction (editArgs P h m)])
                              | Inl err \<Rightarrow> (False, s, tr @ [RunMessageAction (editArgs P h m),
                                                              editFailedLog callId err]))))"
  by (simp add: tryEditToolMessage_def routesToOriginating_def editArgs_def editFailedLog_def
      Let_def split: option.splits sum.splits)

lemma tryEditToolMessage_called:
  assumes "tryEditToolMessage P C p callId (s, tr) = (b, s', tr')"
  shows "(b, s', tr') = (False, s, tr)
       \<or> (\<exists>h m. (b, s', tr') =
             (case runMessageAction C tr (editArgs P h m) of
                Inr _ \<Rightarrow> (True, bumpCount Tool s, tr @ [RunMessageAction (editArgs P h m)])
              | Inl err \<Rightarrow> (False, s, tr @ [RunMessageAction (editArgs P h m),
                                              editFailedLog callId err])))"
proof (cases "routesToOriginating P")
  case False
  then show ?thesis using assms by (simp add: tryEditToolMessage_unfold)
next
  case routes: True
  show ?thesis
  proof (cases "toolMessageByCallId s callId")
    case None
    then show ?thesis using assms routes by (simp add: tryEditToolMessage_unfold)
  next
    case (Some h)
    show ?thesis
    proof (cases "handle_messageId h = []")
      case True
      then show ?thesis using assms routes Some by (simp add: tryEditToolMessage_unfold)
    next
      case hasId: False
      show ?thesis
      proof (cases "trimmedText p")
        case None
        then show ?thesis using assms routes Some hasId by (simp add: tryEditToolMessage_unfold)
      next
        case message: (Some m)
        show ?thesis
        proof (cases "m = []")
          case True
          then show ?thesis
            using assms routes Some hasId message by (simp add: tryEditToolMessage_unfold)
        next
          case False
          have "(b, s', tr') =
             (case runMessageAction C tr (editArgs P h m) of
                Inr _ \<Rightarrow> (True, bumpCount Tool s, tr @ [RunMessageAction (editArgs P h m)])
              | Inl err \<Rightarrow> (False, s, tr @ [RunMessageAction (editArgs P h m),
                                              editFailedLog callId err]))"
            using assms routes Some hasId message False
            by (simp only: tryEditToolMessage_unfold if_False if_True option.case not_True_eq_False)
          then show ?thesis by blast
        qed
      qed
    qed
  qed
qed

lemma tryEditToolMessage_shape:
  assumes "tryEditToolMessage P C p callId (s, tr) = (b, s', tr')"
  shows "(\<not> b \<and> tr' = tr)
       \<or> (b \<and> (\<exists>a. tr' = tr @ [RunMessageAction a] \<and> action a = ''edit''
                  \<and> returns (runMessageAction C tr a)))
       \<or> (\<not> b \<and> (\<exists>a err. action a = ''edit'' \<and> runMessageAction C tr a = Inl err
                  \<and> tr' = tr @ [RunMessageAction a, editFailedLog callId err]))"
proof -
  from tryEditToolMessage_called [OF assms]
  consider (skipped) "(b, s', tr') = (False, s, tr)"
    | (called) h m where "(b, s', tr') =
        (case runMessageAction C tr (editArgs P h m) of
           Inr _ \<Rightarrow> (True, bumpCount Tool s, tr @ [RunMessageAction (editArgs P h m)])
         | Inl err \<Rightarrow> (False, s, tr @ [RunMessageAction (editArgs P h m),
                                         editFailedLog callId err]))"
    by blast
  then show ?thesis
  proof cases
    case skipped
    then show ?thesis by simp
  next
    case called
    show ?thesis
    proof (cases "runMessageAction C tr (editArgs P h m)")
      case (Inl err)
      then have "\<not> b" "tr' = tr @ [RunMessageAction (editArgs P h m), editFailedLog callId err]"
        using called by simp_all
      then show ?thesis using Inl action_editArgs by blast
    next
      case (Inr u)
      then have "b" "tr' = tr @ [RunMessageAction (editArgs P h m)]"
        using called by simp_all
      moreover have "returns (runMessageAction C tr (editArgs P h m))"
        using Inr by (simp add: returns_def)
      ultimately show ?thesis using action_editArgs by blast
    qed
  qed
qed

lemma editIfAllowed_shape:
  assumes "editIfAllowed P C kind p meta (s, tr) = (b, s', tr')"
  shows "(\<not> b \<and> tr' = tr)
       \<or> (b \<and> (\<exists>a. tr' = tr @ [RunMessageAction a] \<and> action a = ''edit''
                  \<and> returns (runMessageAction C tr a)))
       \<or> (\<not> b \<and> (\<exists>a err cid. metaToolCallId meta = Some cid \<and> action a = ''edit''
                  \<and> runMessageAction C tr a = Inl err
                  \<and> tr' = tr @ [RunMessageAction a, editFailedLog (trim cid) err]))"
proof (cases "kind = Tool \<and> metaAllowsEdit meta \<and> truthy (map_option trim (metaToolCallId meta))")
  case False
  then show ?thesis using assms by (auto simp: editIfAllowed_def Let_def)
next
  case True
  then obtain cid where cid: "metaToolCallId meta = Some cid"
    by (cases "metaToolCallId meta") (auto simp: truthy_def)
  have "tryEditToolMessage P C p (trim cid) (s, tr) = (b, s', tr')"
    using assms True cid by (simp add: editIfAllowed_def Let_def stringOf_def)
  from tryEditToolMessage_shape [OF this] show ?thesis
    using cid by blast
qed

lemma sendAsNewMessage_shape:
  assumes "routeReply C tr (routeArgs P p) = Inr result"
  shows "outcome (sendAsNewMessage P C kind p meta (s, tr)) = Inr (ok result)"
    and "traceAfter (sendAsNewMessage P C kind p meta (s, tr)) =
           (if ok result then tr @ [RouteReply (routeArgs P p)]
            else tr @ [RouteReply (routeArgs P p), routeFailedLog kind result])"
  using assms
  by (auto simp: sendAsNewMessage_def routeArgs_def routeFailedLog_def outcome_def traceAfter_def
      Let_def)

lemma routedAsNew_intro:
  assumes "edit = [] \<or> failedEdit C meta tr1 edit"
    and "routeReply C (tr1 @ edit) (routeArgs P p) = Inr result"
    and "sent = (if ok result then edit @ [RouteReply (routeArgs P p)]
                 else edit @ [RouteReply (routeArgs P p), routeFailedLog kind result])"
    and "out = Inr (ok result)"
  shows "routedAsNew P C kind meta tr1 p sent out"
  unfolding routedAsNew_def
  apply (rule exI [of _ edit])
  apply (rule exI [of _ result])
  using assms by simp

lemma refusing_route_returns:
  "replyStartReturns refusingRoute" "ttsReturns refusingRoute"
  "routeReplyReturns refusingRoute" "dispatcherReturns refusingRoute"
  by (simp_all add: refusingRoute_def exampleCollaborators_def replyStartReturns_def ttsReturns_def
      routeReplyReturns_def dispatcherReturns_def returns_def)

lemma refusedFinal_value:
  "outcome refusedFinal = Inr False"
  "last (traceAfter refusedFinal) = LogVerbose ''dispatch-acp: route-reply (acp/final) failed: blocked''"
  by (simp_all add: refusedFinal_def refusingRoute_def scenario_defs coordinator_defs trim_examples)

text \<open>
  C4 (amended).  Let the reply-start callback, the text-to-speech transform, \<open>routeReply\<close> and
  the dispatcher methods return, whatever the edit action does.  Then \<open>deliver\<close> does not
  throw, for every kind, payload and meta: it returns a boolean.  It invokes the callback at
  most once, then the transform on the payload, and after that: a coordinator that does not
  route calls the dispatcher method of the kind on the transformed payload and returns its
  boolean; a coordinator that routes either makes one edit action that returns and returns
  \<open>true\<close>, or calls \<open>routeReply\<close> once, after no edit attempt or after an edit action that threw
  and whose error it has logged, and returns \<open>true\<close> when the result is \<open>ok\<close>, and \<open>false\<close>,
  after logging the failure, when it is not.
\<close>

theorem deliver_returns_when_collaborators_return:
  assumes "replyStartReturns C" "ttsReturns C" "routeReplyReturns C" "dispatcherReturns C"
    and call: "R = deliver P C kind payload meta (s, tr)"
  shows "(\<exists>b. outcome R = Inr b)
    \<and> (\<exists>pre args p sent.
      traceAfter R = tr @ pre @ MaybeApplyTtsToPayload args # sent
      \<and> (pre = [] \<or> pre = [OnReplyStart])
      \<and> tts_payload args = payload
      \<and> maybeApplyTtsToPayload C (tr @ pre) args = Inr p
      \<and> (if routesToOriginating P
          then editedInPlace C (tr @ pre @ [MaybeApplyTtsToPayload args]) sent (outcome R)
               \<or> routedAsNew P C kind meta (tr @ pre @ [MaybeApplyTtsToPayload args]) p sent (outcome R)
          else dispatched C kind (tr @ pre @ [MaybeApplyTtsToPayload args]) p sent (outcome R)))"
proof -
  obtain s1 pre args p where
    pre: "pre = [] \<or> pre = [OnReplyStart]"
    and args: "tts_payload args = payload"
    and tts: "maybeApplyTtsToPayload C (tr @ pre) args = Inr p"
    and run: "deliver P C kind payload meta (s, tr) =
               (if routesToOriginating P
                then routeToOriginating P C kind p meta (s1, tr @ pre @ [MaybeApplyTtsToPayload args])
                else dispatchDirectly C kind p (s1, tr @ pre @ [MaybeApplyTtsToPayload args]))"
    by (rule deliver_reaches_routing [OF assms(1,2), where payload = payload and tr = tr
          and P = P and kind = kind and meta = meta and s = s])
  define tr1 where "tr1 = tr @ pre @ [MaybeApplyTtsToPayload args]"
  have shape: "\<exists>sent. traceAfter R = tr1 @ sent
      \<and> (if routesToOriginating P
          then editedInPlace C tr1 sent (outcome R) \<or> routedAsNew P C kind meta tr1 p sent (outcome R)
          else dispatched C kind tr1 p sent (outcome R))"
  proof (cases "routesToOriginating P")
    case False
    have "returns (dispatcherSink C kind tr1 p)"
      using assms(4) by (cases kind) (simp_all add: dispatcherReturns_def)
    then obtain b where b: "dispatcherSink C kind tr1 p = Inr b"
      using returns_Inr by blast
    have "R = (Inr b, s1, tr1 @ [dispatcherCall kind p])"
      using False call run b by (simp add: dispatchDirectly_eq tr1_def)
    then have "traceAfter R = tr1 @ [dispatcherCall kind p]" "outcome R = Inr b"
      by (simp_all add: traceAfter_def outcome_def)
    then have "traceAfter R = tr1 @ [dispatcherCall kind p]
               \<and> dispatched C kind tr1 p [dispatcherCall kind p] (outcome R)"
      using b by (simp add: dispatched_def)
    then show ?thesis using False by auto
  next
    case True
    obtain done2 s2 tr2 where e: "editIfAllowed P C kind p meta (s1, tr1) = (done2, s2, tr2)"
      by (metis prod_cases3)
    have r: "R = (if done2 then (Inr True, s2, tr2)
                  else sendAsNewMessage P C kind p meta (s2, tr2))"
      using call run True e by (simp add: routeToOriginating_def tr1_def)
    from editIfAllowed_shape [OF e]
    consider (none) "\<not> done2" "tr2 = tr1"
      | (succeeded) a where "done2" "tr2 = tr1 @ [RunMessageAction a]" "action a = ''edit''"
          "returns (runMessageAction C tr1 a)"
      | (failed) a err cid where "\<not> done2" "metaToolCallId meta = Some cid" "action a = ''edit''"
          "runMessageAction C tr1 a = Inl err"
          "tr2 = tr1 @ [RunMessageAction a, editFailedLog (trim cid) err]"
      by blast
    then have "\<exists>sent. traceAfter R = tr1 @ sent
        \<and> (editedInPlace C tr1 sent (outcome R) \<or> routedAsNew P C kind meta tr1 p sent (outcome R))"
    proof cases
      case succeeded
      have "traceAfter R = tr1 @ [RunMessageAction a]" "outcome R = Inr True"
        using r succeeded by (simp_all add: traceAfter_def outcome_def)
      moreover from this have "editedInPlace C tr1 [RunMessageAction a] (outcome R)"
        using succeeded by (simp add: editedInPlace_def)
      ultimately show ?thesis by blast
    next
      case none
      have "returns (routeReply C tr1 (routeArgs P p))"
        using assms(3) by (simp add: routeReplyReturns_def)
      then obtain result where res: "routeReply C tr1 (routeArgs P p) = Inr result"
        using returns_Inr by blast
      have R: "R = sendAsNewMessage P C kind p meta (s2, tr1)"
        using r none by simp
      define sent where "sent = (if ok result then [] @ [RouteReply (routeArgs P p)]
              else [] @ [RouteReply (routeArgs P p), routeFailedLog kind result])"
      have t: "traceAfter R = tr1 @ sent" and o: "outcome R = Inr (ok result)"
        using sendAsNewMessage_shape [OF res, of kind meta s2] unfolding R sent_def by simp_all
      have "routedAsNew P C kind meta tr1 p sent (outcome R)"
        by (rule routedAsNew_intro [where edit = "[]" and result = result])
          (simp_all add: res sent_def o)
      then show ?thesis using t by blast
    next
      case failed
      define edit where "edit = [RunMessageAction a, editFailedLog (trim cid) err]"
      have "returns (routeReply C (tr1 @ edit) (routeArgs P p))"
        using assms(3) by (simp add: routeReplyReturns_def)
      then obtain result where res: "routeReply C (tr1 @ edit) (routeArgs P p) = Inr result"
        using returns_Inr by blast
      have R: "R = sendAsNewMessage P C kind p meta (s2, tr1 @ edit)"
        using r failed by (simp add: edit_def)
      define sent where "sent = (if ok result then edit @ [RouteReply (routeArgs P p)]
              else edit @ [RouteReply (routeArgs P p), routeFailedLog kind result])"
      have t: "traceAfter R = tr1 @ sent" and o: "outcome R = Inr (ok result)"
        using sendAsNewMessage_shape [OF res, of kind meta s2] unfolding R sent_def by simp_all
      have ed: "failedEdit C meta tr1 edit"
        unfolding failedEdit_def using failed edit_def by blast
      have "routedAsNew P C kind meta tr1 p sent (outcome R)"
        by (rule routedAsNew_intro [where edit = edit and result = result])
          (simp_all add: res sent_def o ed)
      then show ?thesis using t by blast
    qed
    then show ?thesis using True by simp
  qed
  then obtain sent where t: "traceAfter R = tr1 @ sent"
    and d: "if routesToOriginating P
          then editedInPlace C tr1 sent (outcome R) \<or> routedAsNew P C kind meta tr1 p sent (outcome R)
          else dispatched C kind tr1 p sent (outcome R)"
    by blast
  have t': "traceAfter R = tr @ pre @ MaybeApplyTtsToPayload args # sent"
    using t by (simp add: tr1_def)
  have boolean: "\<exists>b. outcome R = Inr b"
  proof (cases "routesToOriginating P")
    case False
    then show ?thesis using d by (auto simp: dispatched_def)
  next
    case True
    then consider "editedInPlace C tr1 sent (outcome R)"
      | "routedAsNew P C kind meta tr1 p sent (outcome R)"
      using d by auto
    then show ?thesis
    proof cases
      case 1
      then show ?thesis by (auto simp: editedInPlace_def)
    next
      case 2
      then obtain edit result where
        "if ok result
         then sent = edit @ [RouteReply (routeArgs P p)] \<and> outcome R = Inr True
         else sent = edit @ [RouteReply (routeArgs P p), routeFailedLog kind result]
              \<and> outcome R = Inr False"
        unfolding routedAsNew_def by blast
      then show ?thesis by (cases "ok result") auto
    qed
  qed
  have "\<exists>pre args p sent.
      traceAfter R = tr @ pre @ MaybeApplyTtsToPayload args # sent
      \<and> (pre = [] \<or> pre = [OnReplyStart])
      \<and> tts_payload args = payload
      \<and> maybeApplyTtsToPayload C (tr @ pre) args = Inr p
      \<and> (if routesToOriginating P
          then editedInPlace C (tr @ pre @ [MaybeApplyTtsToPayload args]) sent (outcome R)
               \<or> routedAsNew P C kind meta (tr @ pre @ [MaybeApplyTtsToPayload args]) p sent (outcome R)
          else dispatched C kind (tr @ pre @ [MaybeApplyTtsToPayload args]) p sent (outcome R))"
    apply (rule exI [of _ pre])
    apply (rule exI [of _ args])
    apply (rule exI [of _ p])
    apply (rule exI [of _ sent])
    apply (intro conjI)
        apply (rule t')
       apply (rule pre)
      apply (rule args)
     apply (rule tts)
    apply (rule d [unfolded tr1_def])
    done
  with boolean show ?thesis by (rule conjI)
qed

theorem deliver_returns_when_collaborators_return_witness:
  "replyStartReturns refusingRoute \<and> ttsReturns refusingRoute
   \<and> routeReplyReturns refusingRoute \<and> dispatcherReturns refusingRoute
   \<and> outcome refusedFinal = Inr False
   \<and> last (traceAfter refusedFinal)
       = LogVerbose ''dispatch-acp: route-reply (acp/final) failed: blocked''
   \<and> (\<exists>pre args p sent.
        traceAfter refusedFinal = [] @ pre @ MaybeApplyTtsToPayload args # sent
        \<and> routedAsNew exampleParams refusingRoute Final None
             ([] @ pre @ [MaybeApplyTtsToPayload args]) p sent (Inr False))"
proof -
  have r: "routesToOriginating exampleParams"
    by (simp add: routesToOriginating_def exampleParams_def truthy_def)
  from deliver_returns_when_collaborators_return [OF refusing_route_returns refusedFinal_def]
  obtain pre args p sent where
    t: "traceAfter refusedFinal = [] @ pre @ MaybeApplyTtsToPayload args # sent"
    and d: "editedInPlace refusingRoute ([] @ pre @ [MaybeApplyTtsToPayload args]) sent (outcome refusedFinal)
        \<or> routedAsNew exampleParams refusingRoute Final None
             ([] @ pre @ [MaybeApplyTtsToPayload args]) p sent (outcome refusedFinal)"
    using r by auto
  have "\<not> editedInPlace refusingRoute ([] @ pre @ [MaybeApplyTtsToPayload args]) sent (outcome refusedFinal)"
    by (simp add: editedInPlace_def refusedFinal_value)
  then have "routedAsNew exampleParams refusingRoute Final None
             ([] @ pre @ [MaybeApplyTtsToPayload args]) p sent (Inr False)"
    using d by (simp add: refusedFinal_value)
  then have "\<exists>pre args p sent.
        traceAfter refusedFinal = [] @ pre @ MaybeApplyTtsToPayload args # sent
        \<and> routedAsNew exampleParams refusingRoute Final None
             ([] @ pre @ [MaybeApplyTtsToPayload args]) p sent (Inr False)"
    using t by blast
  then show ?thesis
    using refusing_route_returns refusedFinal_value by - (intro conjI; assumption)
qed

text \<open>
  The claim as stated fails when \<open>routeReply\<close> rejects its promise: \<open>deliver\<close> rejects with
  the same error.
\<close>

theorem route_reply_rejection_propagates_counterexample:
  "outcome (deliver exampleParams failingRoute Final (textPayload ''hello'') None (initialState, []))
     = Inl ''route failed''"
  by (simp add: failingRoute_def scenario_defs coordinator_defs trim_examples)

end
